theory Spec2Isabelle
  imports Main
begin

section \<open>JavaScript values and strings\<close>

text \<open>
  The request bodies are parsed JSON. The model keeps the scalar JSON values, and
  \<open>JUndefined\<close> for a property that is not there. Numbers are the integers (those that
  JSON and JavaScript carry exactly). Strings are ASCII: \<open>toUpperCase\<close> and \<open>trim\<close> act on
  the ASCII letters and the ASCII white space.
\<close>

datatype jsval = JUndefined | JNull | JBool bool | JNum int | JStr string

fun truthy :: "jsval \<Rightarrow> bool" where
  "truthy JUndefined = False"
| "truthy JNull = False"
| "truthy (JBool b) = b"
| "truthy (JNum n) = (n \<noteq> 0)"
| "truthy (JStr s) = (s \<noteq> [])"

type_synonym jsobject = "(string \<times> jsval) list"

definition upperChar :: "char \<Rightarrow> char" where
  "upperChar c =
     (case map_of (zip ''abcdefghijklmnopqrstuvwxyz'' ''ABCDEFGHIJKLMNOPQRSTUVWXYZ'') c of
        Some u \<Rightarrow> u
      | None \<Rightarrow> c)"

definition toUpperCase :: "string \<Rightarrow> string" where
  "toUpperCase s = map upperChar s"

definition isSpace :: "char \<Rightarrow> bool" where
  "isSpace c = (c \<in> set [CHR 0x09, CHR 0x0A, CHR 0x0B, CHR 0x0C, CHR 0x0D, CHR 0x20])"

definition trim :: "string \<Rightarrow> string" where
  "trim s = rev (dropWhile isSpace (rev (dropWhile isSpace s)))"

text \<open>The pattern \<^verbatim>\<open>/^[A-Z0-9_]+$/\<close> of the entity code.\<close>

definition isCodeChar :: "char \<Rightarrow> bool" where
  "isCodeChar c = (c \<in> set ''ABCDEFGHIJKLMNOPQRSTUVWXYZ0123456789_'')"

definition codePattern :: "string \<Rightarrow> bool" where
  "codePattern s = (s \<noteq> [] \<and> list_all isCodeChar s)"

text \<open>The decimal digits of a natural number, and \<^verbatim>\<open>String(n)\<close> for an integer.\<close>

fun digitsOf :: "nat \<Rightarrow> string" where
  "digitsOf n =
     (if n < 10 then [''0123456789'' ! n]
      else digitsOf (n div 10) @ [''0123456789'' ! (n mod 10)])"

declare digitsOf.simps [simp del]

definition numberToString :: "int \<Rightarrow> string" where
  "numberToString n =
     (if n < 0 then CHR ''-'' # digitsOf (nat (- n)) else digitsOf (nat n))"

text \<open>
  The string a value stands for where a string is expected. The route's validators read
  \<open>toString(value)\<close> of express-validator, in which \<open>null\<close> and a missing value are the
  empty string. A String path of a model casts the value with its \<open>toString\<close>; \<open>null\<close> and
  a missing value leave the path without a value, which the \<open>required\<close> validator refuses
  as it refuses the empty string.
\<close>

definition stringOf :: "jsval \<Rightarrow> string" where
  "stringOf v =
     (case v of
        JUndefined \<Rightarrow> []
      | JNull \<Rightarrow> []
      | JBool b \<Rightarrow> (if b then ''true'' else ''false'')
      | JNum n \<Rightarrow> numberToString n
      | JStr s \<Rightarrow> s)"

text \<open>\<^verbatim>\<open>messages.join(', ')\<close>\<close>

fun joinComma :: "string list \<Rightarrow> string" where
  "joinComma [] = []"
| "joinComma [m] = m"
| "joinComma (m # ms) = m @ '', '' @ joinComma ms"

section \<open>Entity definitions (models/Entity.js)\<close>

record activationConfig =
  activation_enabled :: bool
  defaultState :: bool
  entityActive :: bool
  useTimeBounding :: bool

record versioningConfig =
  versioning_enabled :: bool

record hierarchyConfig =
  hierarchy_enabled :: bool
  parentLinkField :: string
  linkType :: string

record recordConfig =
  activation :: activationConfig
  versioning :: versioningConfig
  hierarchy :: hierarchyConfig

record schemaDef =
  schema_type :: string
  properties :: "(string \<times> jsobject) list"
  required :: "string list"

text \<open>
  A document of the Entity model, as a handler sees it. The fields up to
  \<open>entity_updatedAt\<close> are the paths \<open>entitySchema\<close> declares (with \<open>_id\<close> and the two
  timestamps). \<open>entityIsActive\<close> is what the property read \<^verbatim>\<open>entity.entityIsActive\<close> of the
  record handlers returns: \<open>entitySchema\<close> declares no path and no virtual of that name,
  so every document the Entity model builds has it undefined (\<open>Entity_create\<close> below;
  no operation of the model writes it).
\<close>

record entity =
  entity_id :: nat
  code :: string
  name :: string
  description :: "string option"
  derivedRecordConfig :: recordConfig
  schemaDefinition :: schemaDef
  entity_createdBy :: nat
  entity_createdAt :: int
  entity_updatedAt :: int
  entityIsActive :: jsval

subsection \<open>Request bodies for definitions\<close>

text \<open>
  The \<open>derivedRecordConfig\<close> and \<open>schemaDefinition\<close> objects of a request body: every
  key may be absent (\<open>None\<close>).
\<close>

record activationInput =
  in_activation_enabled :: "bool option"
  in_defaultState :: "bool option"
  in_entityActive :: "bool option"
  in_useTimeBounding :: "bool option"

record versioningInput =
  in_versioning_enabled :: "bool option"

record hierarchyInput =
  in_hierarchy_enabled :: "bool option"
  in_parentLinkField :: "string option"
  in_linkType :: "string option"

record configInput =
  in_activation :: "activationInput option"
  in_versioning :: "versioningInput option"
  in_hierarchy :: "hierarchyInput option"

record schemaInput =
  in_type :: "string option"
  in_properties :: "(string \<times> jsobject) list option"
  in_required :: "string list option"

text \<open>The legacy \<open>config\<close> object of the create body.\<close>

record legacyConfig =
  enableActivation :: "bool option"
  defaultActivationState :: "bool option"
  enableRecordLocking :: "bool option"
  enableVersioning :: "bool option"
  enableHierarchy :: "bool option"
  legacy_parentLinkField :: "string option"
  legacy_linkType :: "string option"

text \<open>
  The body of a create or an update of a definition. \<open>body_code\<close> is the value of the key
  \<open>code\<close> as the JSON carries it (\<open>JUndefined\<close>: no such key).
\<close>

record entityBody =
  body_code :: jsval
  body_name :: "string option"
  body_description :: "string option"
  body_derivedRecordConfig :: "configInput option"
  body_config :: "legacyConfig option"
  body_isActive :: "bool option"
  body_schemaDefinition :: "schemaInput option"
  body_schema :: "schemaInput option"

subsection \<open>Schema defaults\<close>

definition orDefault :: "'a option \<Rightarrow> 'a \<Rightarrow> 'a" where
  "orDefault v d = (case v of Some x \<Rightarrow> x | None \<Rightarrow> d)"

definition activationDefaults :: "activationInput option \<Rightarrow> activationConfig" where
  "activationDefaults a =
     \<lparr> activation_enabled = orDefault (Option.bind a in_activation_enabled) True,
       defaultState = orDefault (Option.bind a in_defaultState) True,
       entityActive = orDefault (Option.bind a in_entityActive) True,
       useTimeBounding = orDefault (Option.bind a in_useTimeBounding) False \<rparr>"

definition versioningDefaults :: "versioningInput option \<Rightarrow> versioningConfig" where
  "versioningDefaults v =
     \<lparr> versioning_enabled = orDefault (Option.bind v in_versioning_enabled) False \<rparr>"

definition hierarchyDefaults :: "hierarchyInput option \<Rightarrow> hierarchyConfig" where
  "hierarchyDefaults h =
     \<lparr> hierarchy_enabled = orDefault (Option.bind h in_hierarchy_enabled) False,
       parentLinkField = trim (orDefault (Option.bind h in_parentLinkField) ''parentId''),
       linkType = orDefault (Option.bind h in_linkType) ''_id'' \<rparr>"

definition configDefaults :: "configInput option \<Rightarrow> recordConfig" where
  "configDefaults c =
     \<lparr> activation = activationDefaults (Option.bind c in_activation),
       versioning = versioningDefaults (Option.bind c in_versioning),
       hierarchy = hierarchyDefaults (Option.bind c in_hierarchy) \<rparr>"

definition schemaDefaults :: "schemaInput option \<Rightarrow> schemaDef" where
  "schemaDefaults s =
     \<lparr> schema_type = orDefault (Option.bind s in_type) ''object'',
       properties = orDefault (Option.bind s in_properties) [],
       required = orDefault (Option.bind s in_required) [] \<rparr>"

section \<open>Entity records (models/EntityRecord.js)\<close>

text \<open>
  A document of the EntityRecord model: the paths \<open>entityRecordSchema\<close> declares, \<open>_id\<close>
  and the two timestamps. Dates are milliseconds; \<open>None\<close> is \<open>null\<close>. The schema has the
  default strict mode and declares no parent path.
\<close>

record entityRecord =
  record_id :: nat
  entityId :: nat
  entityCode :: string
  data :: jsobject
  isActive :: bool
  effectiveFrom :: "int option"
  effectiveTo :: "int option"
  version :: int
  isCurrent :: bool
  expiredAt :: "int option"
  createdBy :: nat
  updatedBy :: nat
  createdAt :: int
  updatedAt :: int

section \<open>The store\<close>

text \<open>The two collections, in insertion order, and the next fresh \<open>_id\<close>.\<close>

record store =
  entities :: "entity list"
  records :: "entityRecord list"
  nextId :: nat

datatype mongooseError = ValidationError "(string \<times> string) list" | OtherError string

text \<open>
  What a handler sends: \<open>Success\<close> with the status and the \<open>data\<close> of the response,
  \<open>Fail\<close> with the status and the \<open>message\<close>, \<open>FailErrors\<close> with the status and the
  messages of the request validation (\<open>errors.array()\<close>). Every handler returns the
  response and the store after the request.
\<close>

datatype 'a result = Success nat 'a | Fail nat string | FailErrors nat "string list"

fun updateOne :: "('a \<Rightarrow> bool) \<Rightarrow> ('a \<Rightarrow> 'a) \<Rightarrow> 'a list \<Rightarrow> 'a list" where
  "updateOne p f [] = []"
| "updateOne p f (x # xs) = (if p x then f x # xs else x # updateOne p f xs)"

fun deleteOne :: "('a \<Rightarrow> bool) \<Rightarrow> 'a list \<Rightarrow> 'a list" where
  "deleteOne p [] = []"
| "deleteOne p (x # xs) = (if p x then xs else x # deleteOne p xs)"

definition quoted :: "string \<Rightarrow> string" where
  "quoted s = [CHR 0x27] @ s @ [CHR 0x27]"

section \<open>Definitions: controllers/entityController.js\<close>

subsection \<open>The Entity model's hooks and validators\<close>

text \<open>
  \<open>pre('validate')\<close> of \<open>entitySchema\<close>: every required field must be a key of
  \<open>properties\<close>; the first one that is not raises a plain \<open>Error\<close>.
\<close>

definition entityPreValidate :: "schemaDef \<Rightarrow> string option" where
  "entityPreValidate s =
     (case find (\<lambda>field. map_of (properties s) field = None) (required s) of
        Some field \<Rightarrow>
          Some (''Required field '' @ quoted field @ '' is not defined in properties'')
      | None \<Rightarrow> None)"

text \<open>The validators of the paths \<open>code\<close>, \<open>name\<close> and \<open>linkType\<close>, after the setters.\<close>

definition codeErrors :: "string \<Rightarrow> (string \<times> string) list" where
  "codeErrors c =
     (if c = [] then [(''code'', ''Entity code is required.'')]
      else if \<not> codePattern c then
        [(''code'', ''Entity code must be uppercase alphanumeric with underscores only'')]
      else [])"

definition nameErrors :: "string \<Rightarrow> (string \<times> string) list" where
  "nameErrors n = (if n = [] then [(''name'', ''Entity name is required.'')] else [])"

definition linkTypeErrors :: "string \<Rightarrow> (string \<times> string) list" where
  "linkTypeErrors t =
     (if t \<in> set [''_id'', ''code''] then []
      else [(''derivedRecordConfig.hierarchy.linkType'',
             [CHR 0x60] @ t @ [CHR 0x60] @ '' is not a valid enum value for path ''
               @ [CHR 0x60] @ ''derivedRecordConfig.hierarchy.linkType'' @ [CHR 0x60] @ ''.'')])"

record entityData =
  data_code :: string
  data_name :: string
  data_description :: "string option"
  data_createdBy :: nat
  data_derivedRecordConfig :: configInput
  data_schemaDefinition :: schemaInput

text \<open>
  \<open>Entity.create\<close>: the document with the setters (\<open>trim\<close>, \<open>uppercase\<close>) and the defaults
  applied, the \<open>pre('validate')\<close> hook, the validators, the unique index on \<open>code\<close>, the
  insertion. Only declared paths are stored, so \<open>entityIsActive\<close> reads undefined.
\<close>

definition Entity_create ::
  "store \<Rightarrow> int \<Rightarrow> entityData \<Rightarrow> mongooseError + (entity \<times> store)" where
  "Entity_create st now d =
     (let doc = \<lparr> entity_id = nextId st,
                  code = toUpperCase (trim (data_code d)),
                  name = trim (data_name d),
                  description = map_option trim (data_description d),
                  derivedRecordConfig = configDefaults (Some (data_derivedRecordConfig d)),
                  schemaDefinition = schemaDefaults (Some (data_schemaDefinition d)),
                  entity_createdBy = data_createdBy d,
                  entity_createdAt = now,
                  entity_updatedAt = now,
                  entityIsActive = JUndefined \<rparr>
      in case entityPreValidate (schemaDefinition doc) of
           Some m \<Rightarrow> Inl (OtherError m)
         | None \<Rightarrow>
             (let errs = codeErrors (code doc) @ nameErrors (name doc)
                         @ linkTypeErrors (linkType (hierarchy (derivedRecordConfig doc)))
              in if errs \<noteq> [] then Inl (ValidationError errs)
                 else if \<exists>e \<in> set (entities st). code e = code doc
                 then Inl (OtherError ''E11000 duplicate key error'')
                 else Inr (doc, st\<lparr> entities := entities st @ [doc],
                                     nextId := Suc (nextId st) \<rparr>)))"

subsection \<open>createEntity\<close>

text \<open>The checks of \<^verbatim>\<open>routes/entityRoutes.js\<close> that \<open>validationResult\<close> reports.\<close>

definition createEntityErrors :: "entityBody \<Rightarrow> string list" where
  "createEntityErrors body =
     (let c = stringOf (body_code body); n = orDefault (body_name body) []
      in (if c = [] then [''Entity code is required''] else [])
         @ (if \<not> codePattern c
            then [''Entity code must be uppercase alphanumeric with underscores only'']
            else [])
         @ (if n = [] then [''Entity name is required''] else []))"

definition legacyToConfig :: "legacyConfig option \<Rightarrow> bool option \<Rightarrow> configInput" where
  "legacyToConfig config active =
     \<lparr> in_activation = Some
         \<lparr> in_activation_enabled = Some (orDefault (Option.bind config enableActivation) True),
           in_defaultState = Some (orDefault (Option.bind config defaultActivationState) True),
           in_entityActive = Some (orDefault active True),
           in_useTimeBounding = Some (orDefault (Option.bind config enableRecordLocking) False) \<rparr>,
       in_versioning = Some
         \<lparr> in_versioning_enabled = Some (orDefault (Option.bind config enableVersioning) False) \<rparr>,
       in_hierarchy = Some
         \<lparr> in_hierarchy_enabled = Some (orDefault (Option.bind config enableHierarchy) False),
           in_parentLinkField = Some
             (case Option.bind config legacy_parentLinkField of
                Some f \<Rightarrow> if f \<noteq> [] then f else ''parentId''
              | None \<Rightarrow> ''parentId''),
           in_linkType = Some
             (case Option.bind config legacy_linkType of
                Some t \<Rightarrow> if t \<noteq> [] then t else ''_id''
              | None \<Rightarrow> ''_id'') \<rparr> \<rparr>"

definition legacyToSchema :: "schemaInput \<Rightarrow> schemaInput" where
  "legacyToSchema s =
     \<lparr> in_type = Some (case in_type s of
                         Some t \<Rightarrow> if t \<noteq> [] then t else ''object''
                       | None \<Rightarrow> ''object''),
       in_properties = Some (orDefault (in_properties s) []),
       in_required = Some (orDefault (in_required s) []) \<rparr>"

text \<open>
  The \<open>entityData\<close> object: the direct fields, \<open>derivedRecordConfig\<close> as given or built
  from the legacy fields, \<open>schemaDefinition\<close> as given, or built from \<open>schema\<close>, or empty.
\<close>

definition buildEntityData :: "nat \<Rightarrow> string \<Rightarrow> string \<Rightarrow> entityBody \<Rightarrow> entityData" where
  "buildEntityData user c n body =
     \<lparr> data_code = c,
       data_name = n,
       data_description = body_description body,
       data_createdBy = user,
       data_derivedRecordConfig =
         (case body_derivedRecordConfig body of
            Some cfg \<Rightarrow> cfg
          | None \<Rightarrow> legacyToConfig (body_config body) (body_isActive body)),
       data_schemaDefinition =
         (case body_schemaDefinition body of
            Some s \<Rightarrow> s
          | None \<Rightarrow>
              (case body_schema body of
                 Some s \<Rightarrow> legacyToSchema s
               | None \<Rightarrow> \<lparr> in_type = Some ''object'',
                           in_properties = Some [],
                           in_required = Some [] \<rparr>)) \<rparr>"

text \<open>
  \<^verbatim>\<open>if (req.body.code) req.body.code = req.body.code.toUpperCase()\<close>: the code as the model
  reads it afterwards, and \<open>None\<close> when the call raises a \<open>TypeError\<close> (a truthy value
  that is no string has no \<open>toUpperCase\<close>).
\<close>

definition upperCased :: "jsval \<Rightarrow> string option" where
  "upperCased v =
     (case v of
        JStr s \<Rightarrow> Some (if s \<noteq> [] then toUpperCase s else s)
      | _ \<Rightarrow> if truthy v then None else Some (stringOf v))"

definition createEntity ::
  "store \<Rightarrow> int \<Rightarrow> nat \<Rightarrow> entityBody \<Rightarrow> entity result \<times> store" where
  "createEntity st now user body =
     (let errors = createEntityErrors body
      in if errors \<noteq> [] then (FailErrors 400 errors, st)
         else case body_name body of
           None \<Rightarrow> (FailErrors 400 errors, st)
         | Some n \<Rightarrow>
             (case upperCased (body_code body) of
                None \<Rightarrow> (Fail 500 ''Server error while creating entity'', st)
              | Some c \<Rightarrow>
                  (case find (\<lambda>e. code e = c) (entities st) of
                     Some existingEntity \<Rightarrow>
                       (Fail 400 (''Entity with code '' @ quoted c @ '' already exists''), st)
                   | None \<Rightarrow>
                       (case Entity_create st now (buildEntityData user c n body) of
                          Inr (entity, st') \<Rightarrow> (Success 201 entity, st')
                        | Inl (ValidationError errs) \<Rightarrow>
                            (Fail 400 (joinComma (map snd errs)), st)
                        | Inl (OtherError m) \<Rightarrow>
                            (Fail 500 ''Server error while creating entity'', st)))))"

subsection \<open>updateEntity\<close>

text \<open>
  How the store writes a nested object of the update (\<open>$set\<close> of
  \<open>derivedRecordConfig\<close> or of \<open>schemaDefinition\<close>, with the update validators) is the
  store's business, not the controller's: it is a parameter, and the general theorems
  about \<open>updateEntity\<close> hold for every such store. \<open>Inl\<close> carries the validators' errors.
\<close>

record nestedSet =
  setConfig :: "recordConfig \<Rightarrow> configInput \<Rightarrow> (string \<times> string) list + recordConfig"
  setSchema :: "schemaDef \<Rightarrow> schemaInput \<Rightarrow> (string \<times> string) list + schemaDef"

text \<open>
  The store of the repository: the update carries the object as one value, and the \<open>$set\<close>
  of MongoDB replaces the stored nested object by it whole; a leaf the patch leaves out is
  then missing in the stored document and reads back as its schema default.
\<close>

definition replaceNested :: nestedSet where
  "replaceNested =
     \<lparr> setConfig = (\<lambda>old cfg.
         let new = configDefaults (Some cfg)
         in case linkTypeErrors (linkType (hierarchy new)) of
              [] \<Rightarrow> Inr new
            | errs \<Rightarrow> Inl errs),
       setSchema = (\<lambda>old s. Inr (schemaDefaults (Some s))) \<rparr>"

text \<open>
  \<open>Entity.findByIdAndUpdate(id, update, {new: true, runValidators: true})\<close>: the
  \<open>pre('findOneAndUpdate')\<close> hook of \<open>entitySchema\<close> (a truthy \<open>code\<close> in the update is an
  \<open>Error\<close>), the cast and the setters of the updated paths, their validators, the unique
  index on \<open>code\<close>, the \<open>$set\<close> of the declared paths the update names. Keys that are no
  paths of the schema (\<open>config\<close>, \<open>isActive\<close>, \<open>schema\<close>) are dropped.
\<close>

definition Entity_findByIdAndUpdate ::
  "nestedSet \<Rightarrow> store \<Rightarrow> int \<Rightarrow> nat \<Rightarrow> entityBody \<Rightarrow> mongooseError + (entity option \<times> store)" where
  "Entity_findByIdAndUpdate ns st now ident update =
     (if truthy (body_code update)
      then Inl (OtherError ''Entity code cannot be modified after creation'')
      else case find (\<lambda>e. entity_id e = ident) (entities st) of
        None \<Rightarrow> Inr (None, st)
      | Some e \<Rightarrow>
          (let newCode = (if body_code update = JUndefined then None
                          else Some (toUpperCase (trim (stringOf (body_code update)))));
               newName = map_option trim (body_name update);
               newConfig = map_option (setConfig ns (derivedRecordConfig e))
                             (body_derivedRecordConfig update);
               newSchema = map_option (setSchema ns (schemaDefinition e))
                             (body_schemaDefinition update);
               errs = (case newCode of Some c \<Rightarrow> codeErrors c | None \<Rightarrow> [])
                      @ (case newName of Some n \<Rightarrow> nameErrors n | None \<Rightarrow> [])
                      @ (case newConfig of Some (Inl es) \<Rightarrow> es | _ \<Rightarrow> [])
                      @ (case newSchema of Some (Inl es) \<Rightarrow> es | _ \<Rightarrow> [])
           in if errs \<noteq> [] then Inl (ValidationError errs)
              else if (case newCode of
                         Some c \<Rightarrow> \<exists>x \<in> set (entities st). entity_id x \<noteq> ident \<and> code x = c
                       | None \<Rightarrow> False)
              then Inl (OtherError ''E11000 duplicate key error'')
              else
                (let e' = e\<lparr> code := orDefault newCode (code e),
                             name := orDefault newName (name e),
                             description :=
                               (case body_description update of
                                  Some d \<Rightarrow> Some (trim d)
                                | None \<Rightarrow> description e),
                             derivedRecordConfig :=
                               (case newConfig of
                                  Some (Inr c) \<Rightarrow> c
                                | _ \<Rightarrow> derivedRecordConfig e),
                             schemaDefinition :=
                               (case newSchema of
                                  Some (Inr s) \<Rightarrow> s
                                | _ \<Rightarrow> schemaDefinition e),
                             entity_updatedAt := now \<rparr>
                 in Inr (Some e',
                         st\<lparr> entities :=
                               updateOne (\<lambda>x. entity_id x = ident) (\<lambda>x. e') (entities st) \<rparr>))))"

text \<open>
  The \<open>id\<close> of the URL is \<open>None\<close> when it is no ObjectId: \<open>findById\<close> then raises a
  cast error, which the handler answers with 500.
\<close>

definition updateEntity ::
  "nestedSet \<Rightarrow> store \<Rightarrow> int \<Rightarrow> nat option \<Rightarrow> entityBody \<Rightarrow> entity result \<times> store" where
  "updateEntity ns st now ident body0 =
     (let errors = (case body_name body0 of
                      Some n \<Rightarrow> if n = [] then [''Entity name is required if provided''] else []
                    | None \<Rightarrow> [])
      in if errors \<noteq> [] then (FailErrors 400 errors, st)
         else
           (let body = (if truthy (body_code body0)
                        then body0\<lparr> body_code := JUndefined \<rparr> else body0)
            in case ident of
                 None \<Rightarrow> (Fail 500 ''Server error while updating entity'', st)
               | Some i \<Rightarrow>
                   (case find (\<lambda>e. entity_id e = i) (entities st) of
                      None \<Rightarrow> (Fail 404 ''Entity not found'', st)
                    | Some entity \<Rightarrow>
                        if versioning_enabled (versioning (derivedRecordConfig entity))
                           \<and> Option.bind (Option.bind (body_derivedRecordConfig body) in_versioning)
                                 in_versioning_enabled = Some False
                        then (Fail 400 ''Cannot disable versioning once it has been enabled'', st)
                        else if hierarchy_enabled (hierarchy (derivedRecordConfig entity))
                           \<and> Option.bind (Option.bind (body_derivedRecordConfig body) in_hierarchy)
                                 in_hierarchy_enabled = Some False
                        then (Fail 400 ''Cannot disable hierarchy once it has been enabled'', st)
                        else
                          (case Entity_findByIdAndUpdate ns st now i body of
                             Inr (Some updatedEntity, st') \<Rightarrow> (Success 200 updatedEntity, st')
                           | Inr (None, st') \<Rightarrow>
                               (Fail 500 ''Server error while updating entity'', st')
                           | Inl (ValidationError errs) \<Rightarrow>
                               (Fail 400 (joinComma (map snd errs)), st)
                           | Inl (OtherError m) \<Rightarrow>
                               (Fail 500 ''Server error while updating entity'', st)))))"

subsection \<open>toggleEntityActivation\<close>

text \<open>
  The usability flag the definition carries is \<open>derivedRecordConfig.activation.entityActive\<close>;
  this handler flips it and saves (\<open>pre('validate')\<close> runs on the save).
\<close>

definition toggleEntityActivation ::
  "store \<Rightarrow> int \<Rightarrow> nat option \<Rightarrow> (nat \<times> string \<times> bool) result \<times> store" where
  "toggleEntityActivation st now ident =
     (case ident of
        None \<Rightarrow> (Fail 500 ''Server error while toggling entity activation'', st)
      | Some i \<Rightarrow>
          (case find (\<lambda>e. entity_id e = i) (entities st) of
             None \<Rightarrow> (Fail 404 ''Entity not found'', st)
           | Some entity \<Rightarrow>
               (let previousStatus = entityActive (activation (derivedRecordConfig entity));
                    cfg = derivedRecordConfig entity;
                    entity' = entity\<lparr> derivedRecordConfig :=
                                cfg\<lparr> activation := (activation cfg)\<lparr> entityActive := \<not> previousStatus \<rparr> \<rparr>,
                                entity_updatedAt := now \<rparr>
                in case entityPreValidate (schemaDefinition entity') of
                     Some m \<Rightarrow> (Fail 500 ''Server error while toggling entity activation'', st)
                   | None \<Rightarrow>
                       (Success 200 (entity_id entity', code entity', \<not> previousStatus),
                        st\<lparr> entities :=
                              updateOne (\<lambda>x. entity_id x = i) (\<lambda>x. entity') (entities st) \<rparr>))))"

section \<open>Records: controllers/entityRecordController.js\<close>

subsection \<open>The EntityRecord model\<close>

text \<open>
  A key that is no path of \<open>entityRecordSchema\<close> and no member of the document object is
  dropped by the constructor (strict mode) and, assigned on a loaded document, is a plain
  property that \<open>save\<close> does not write. What happens for the other keys (\<open>reservedName\<close>)
  is Mongoose's casting of the value into that path: a parameter (\<open>constructorSet\<close> for
  \<open>EntityRecord.create\<close>, \<open>propertySet\<close> for an assignment on a document), and so is the
  \<open>$text\<close> search of the store (\<open>textMatch\<close>).
\<close>

record documentModel =
  reservedName :: "string \<Rightarrow> bool"
  constructorSet :: "string \<Rightarrow> jsval \<Rightarrow> entityRecord \<Rightarrow> mongooseError + entityRecord"
  propertySet :: "string \<Rightarrow> jsval \<Rightarrow> entityRecord \<Rightarrow> mongooseError + entityRecord"
  textMatch :: "string \<Rightarrow> entityRecord \<Rightarrow> bool"

text \<open>The value \<open>new Date(v)\<close> has for a truthy \<open>v\<close> of the body.\<close>

datatype dateval = ValidDate int | InvalidDate

definition dquoted :: "string \<Rightarrow> string" where
  "dquoted s = [CHR 0x22] @ s @ [CHR 0x22]"

definition dateCastErrors :: "string \<Rightarrow> dateval option \<Rightarrow> (string \<times> string) list" where
  "dateCastErrors path d =
     (case d of
        Some InvalidDate \<Rightarrow>
          [(path, ''Cast to date failed for value '' @ dquoted ''Invalid Date''
                  @ '' (type Date) at path '' @ dquoted path)]
      | _ \<Rightarrow> [])"

definition dateOr :: "dateval option \<Rightarrow> int option \<Rightarrow> int option" where
  "dateOr d old = (case d of Some (ValidDate t) \<Rightarrow> Some t | _ \<Rightarrow> old)"

text \<open>
  \<open>pre('validate')\<close> of \<open>entityRecordSchema\<close>: when both dates are set, the start must be
  before the end.
\<close>

definition recordPreValidate :: "entityRecord \<Rightarrow> (string \<times> string) list" where
  "recordPreValidate r =
     (case (effectiveFrom r, effectiveTo r) of
        (Some f, Some t) \<Rightarrow>
          if f \<ge> t
          then [(''effectiveTo'', ''Effective end date must be after effective start date'')]
          else []
      | _ \<Rightarrow> [])"

definition validationMessage :: "(string \<times> string) list \<Rightarrow> string" where
  "validationMessage errs =
     ''EntityRecord validation failed: '' @ joinComma (map (\<lambda>(p, m). p @ '': '' @ m) errs)"

record recordData =
  rd_entityId :: nat
  rd_entityCode :: string
  rd_data :: jsobject
  rd_createdBy :: nat
  rd_updatedBy :: nat
  rd_isActive :: "bool option"
  rd_effectiveFrom :: "dateval option"
  rd_effectiveTo :: "dateval option"
  rd_dynamic :: "(string \<times> jsval) option"

text \<open>
  \<open>EntityRecord.create(recordData)\<close>: the document of the declared paths with the schema
  defaults (\<open>isActive\<close> true, \<open>effectiveFrom\<close> now, \<open>effectiveTo\<close> null, \<open>version\<close> 1,
  \<open>isCurrent\<close> true, \<open>expiredAt\<close> null), the dynamically named key, the validation, the
  insertion.
\<close>

definition newRecord :: "store \<Rightarrow> int \<Rightarrow> recordData \<Rightarrow> entityRecord" where
  "newRecord st now rd =
     \<lparr> record_id = nextId st,
       entityId = rd_entityId rd,
       entityCode = toUpperCase (trim (rd_entityCode rd)),
       data = rd_data rd,
       isActive = orDefault (rd_isActive rd) True,
       effectiveFrom = dateOr (rd_effectiveFrom rd) (Some now),
       effectiveTo = dateOr (rd_effectiveTo rd) None,
       version = 1,
       isCurrent = True,
       expiredAt = None,
       createdBy = rd_createdBy rd,
       updatedBy = rd_updatedBy rd,
       createdAt = now,
       updatedAt = now \<rparr>"

definition EntityRecord_create ::
  "documentModel \<Rightarrow> store \<Rightarrow> int \<Rightarrow> recordData \<Rightarrow> mongooseError + (entityRecord \<times> store)" where
  "EntityRecord_create dm st now rd =
     (case (case rd_dynamic rd of
              Some (k, v) \<Rightarrow>
                if reservedName dm k then constructorSet dm k v (newRecord st now rd)
                else Inr (newRecord st now rd)
            | None \<Rightarrow> Inr (newRecord st now rd)) of
        Inl err \<Rightarrow> Inl err
      | Inr doc \<Rightarrow>
          (let errs = dateCastErrors ''effectiveFrom'' (rd_effectiveFrom rd)
                      @ dateCastErrors ''effectiveTo'' (rd_effectiveTo rd)
                      @ recordPreValidate doc
           in if errs \<noteq> [] then Inl (ValidationError errs)
              else Inr (doc, st\<lparr> records := records st @ [doc],
                                  nextId := Suc (nextId st) \<rparr>)))"

subsection \<open>Request bodies for records\<close>

text \<open>
  \<open>req_data\<close> is the \<open>data\<close> object (\<open>None\<close>: absent); \<open>req_isActive\<close> a boolean or absent;
  \<open>req_effectiveFrom\<close> and \<open>req_effectiveTo\<close> are \<open>None\<close> for an absent or falsy value and
  otherwise the date the value constructs; \<open>req_parent\<close> is \<open>JUndefined\<close> when absent.
\<close>

record recordBody =
  req_data :: "jsobject option"
  req_isActive :: "bool option"
  req_effectiveFrom :: "dateval option"
  req_effectiveTo :: "dateval option"
  req_parent :: jsval

fun includesStr :: "string \<Rightarrow> string \<Rightarrow> bool" where
  "includesStr p [] = (p = [])"
| "includesStr p (c # s) = (take (length p) (c # s) = p \<or> includesStr p s)"

text \<open>The \<open>catch\<close> of the create and update handlers.\<close>

definition recordCatch :: "string \<Rightarrow> mongooseError \<Rightarrow> 'a result" where
  "recordCatch serverMessage err =
     (case err of
        ValidationError errs \<Rightarrow> Fail 400 (validationMessage errs)
      | OtherError m \<Rightarrow>
          if includesStr ''Required field'' m then Fail 400 m else Fail 500 serverMessage)"

subsection \<open>createEntityRecord\<close>

text \<open>The \<open>recordData\<close> object the handler fills before the create.\<close>

definition buildRecordData :: "entity \<Rightarrow> nat \<Rightarrow> jsobject \<Rightarrow> recordBody \<Rightarrow> recordData" where
  "buildRecordData entity user bodyData body =
     (let cfg = derivedRecordConfig entity;
          recordData0 = \<lparr> rd_entityId = entity_id entity,
                          rd_entityCode = code entity,
                          rd_data = bodyData,
                          rd_createdBy = user,
                          rd_updatedBy = user,
                          rd_isActive = None,
                          rd_effectiveFrom = None,
                          rd_effectiveTo = None,
                          rd_dynamic = None \<rparr>;
          recordData1 =
            (if activation_enabled (activation cfg)
             then recordData0\<lparr> rd_isActive :=
                    Some (case req_isActive body of
                            Some b \<Rightarrow> b
                          | None \<Rightarrow> defaultState (activation cfg)) \<rparr>
             else recordData0);
          recordData2 =
            (if useTimeBounding (activation cfg)
             then recordData1\<lparr> rd_effectiveFrom := req_effectiveFrom body,
                               rd_effectiveTo := req_effectiveTo body \<rparr>
             else recordData1)
      in if hierarchy_enabled (hierarchy cfg) \<and> truthy (req_parent body)
         then recordData2\<lparr> rd_dynamic :=
                Some (parentLinkField (hierarchy cfg), req_parent body) \<rparr>
         else recordData2)"

definition createEntityRecord ::
  "documentModel \<Rightarrow> store \<Rightarrow> int \<Rightarrow> nat \<Rightarrow> string \<Rightarrow> recordBody \<Rightarrow> entityRecord result \<times> store" where
  "createEntityRecord dm st now user entityCodeParam body =
     (case req_data body of
        None \<Rightarrow> (FailErrors 400 [''Record data is required''], st)
      | Some bodyData \<Rightarrow>
          (case find (\<lambda>e. code e = toUpperCase entityCodeParam) (entities st) of
             None \<Rightarrow> (Fail 404 (''Entity with code '' @ entityCodeParam @ '' not found''), st)
           | Some entity \<Rightarrow>
               if \<not> truthy (entityIsActive entity)
               then (Fail 400 (''Entity '' @ name entity
                       @ '' is currently inactive and cannot accept new records''), st)
               else
                 (case EntityRecord_create dm st now
                         (buildRecordData entity user bodyData body) of
                    Inr (record, st') \<Rightarrow> (Success 201 record, st')
                  | Inl err \<Rightarrow>
                      (recordCatch ''Server error while creating entity record'' err, st))))"

subsection \<open>updateEntityRecord\<close>

text \<open>
  \<open>record.save()\<close>: the cast errors of the assignments and \<open>pre('validate')\<close>, then the
  write of the document with that \<open>_id\<close>, stamped \<open>updatedAt\<close>.
\<close>

definition EntityRecord_save ::
  "store \<Rightarrow> int \<Rightarrow> (string \<times> string) list \<Rightarrow> entityRecord \<Rightarrow> mongooseError + store" where
  "EntityRecord_save st now castErrs r =
     (let errs = castErrs @ recordPreValidate r
      in if errs \<noteq> [] then Inl (ValidationError errs)
         else Inr (st\<lparr> records :=
                        updateOne (\<lambda>x. record_id x = record_id r)
                          (\<lambda>x. r\<lparr> updatedAt := now \<rparr>) (records st) \<rparr>))"

text \<open>
  The assignments of the handler on the loaded document: \<open>data\<close>, \<open>isActive\<close>, the two
  dates, the dynamically named parent key, \<open>updatedBy\<close>. A date that does not parse
  leaves the path as it was and is reported by the save (\<open>updateCastErrors\<close>).
\<close>

definition assignRecordUpdate ::
  "documentModel \<Rightarrow> entity \<Rightarrow> nat \<Rightarrow> recordBody \<Rightarrow> entityRecord
     \<Rightarrow> mongooseError + entityRecord" where
  "assignRecordUpdate dm entity user body record0 =
     (let cfg = derivedRecordConfig entity;
          record1 = (case req_data body of
                       Some d \<Rightarrow> record0\<lparr> data := d \<rparr>
                     | None \<Rightarrow> record0);
          record2 =
            (case req_isActive body of
               Some b \<Rightarrow> if activation_enabled (activation cfg)
                         then record1\<lparr> isActive := b \<rparr> else record1
             | None \<Rightarrow> record1);
          record3 =
            (if useTimeBounding (activation cfg)
             then record2\<lparr> effectiveFrom :=
                              dateOr (req_effectiveFrom body) (effectiveFrom record2),
                            effectiveTo :=
                              dateOr (req_effectiveTo body) (effectiveTo record2) \<rparr>
             else record2);
          record4 =
            (if hierarchy_enabled (hierarchy cfg) \<and> req_parent body \<noteq> JUndefined
                \<and> reservedName dm (parentLinkField (hierarchy cfg))
             then propertySet dm (parentLinkField (hierarchy cfg)) (req_parent body) record3
             else Inr record3)
      in case record4 of
           Inl err \<Rightarrow> Inl err
         | Inr record5 \<Rightarrow> Inr (record5\<lparr> updatedBy := user \<rparr>))"

definition updateCastErrors :: "entity \<Rightarrow> recordBody \<Rightarrow> (string \<times> string) list" where
  "updateCastErrors entity body =
     (if useTimeBounding (activation (derivedRecordConfig entity))
      then dateCastErrors ''effectiveFrom'' (req_effectiveFrom body)
           @ dateCastErrors ''effectiveTo'' (req_effectiveTo body)
      else [])"

text \<open>
  The \<open>id\<close> of the URL is \<open>None\<close> when \<open>ObjectId.isValid\<close> refuses it. The route's check
  of \<open>data\<close> (optional, not empty) passes for every body of this type. The response
  carries the document as it is read back after the save.
\<close>

definition updateEntityRecord ::
  "documentModel \<Rightarrow> store \<Rightarrow> int \<Rightarrow> nat \<Rightarrow> string \<Rightarrow> nat option \<Rightarrow> recordBody
     \<Rightarrow> entityRecord option result \<times> store" where
  "updateEntityRecord dm st now user entityCodeParam ident body =
     (case ident of
        None \<Rightarrow> (Fail 400 ''Invalid ID format'', st)
      | Some i \<Rightarrow>
          (case find (\<lambda>r. record_id r = i \<and> entityCode r = toUpperCase entityCodeParam)
                  (records st) of
             None \<Rightarrow> (Fail 404 ''Entity record not found'', st)
           | Some record0 \<Rightarrow>
               (case find (\<lambda>e. entity_id e = entityId record0) (entities st) of
                  None \<Rightarrow> (Fail 404 ''Parent entity definition not found'', st)
                | Some entity \<Rightarrow>
                    if \<not> truthy (entityIsActive entity)
                    then (Fail 400 (''Entity '' @ name entity
                            @ '' is currently inactive and records cannot be updated''), st)
                    else
                      (case assignRecordUpdate dm entity user body record0 of
                         Inl err \<Rightarrow>
                           (recordCatch ''Server error while updating entity record'' err, st)
                       | Inr record \<Rightarrow>
                           (case EntityRecord_save st now (updateCastErrors entity body)
                                   record of
                              Inl err \<Rightarrow>
                                (recordCatch ''Server error while updating entity record'' err,
                                 st)
                            | Inr st' \<Rightarrow>
                                (Success 200
                                   (find (\<lambda>r. record_id r = record_id record) (records st')),
                                 st'))))))"

subsection \<open>toggleEntityRecordActivation and deleteEntityRecord\<close>

definition toggleEntityRecordActivation ::
  "store \<Rightarrow> int \<Rightarrow> nat \<Rightarrow> string \<Rightarrow> nat option \<Rightarrow> (nat \<times> bool) result \<times> store" where
  "toggleEntityRecordActivation st now user entityCodeParam ident =
     (case ident of
        None \<Rightarrow> (Fail 400 ''Invalid ID format'', st)
      | Some i \<Rightarrow>
          (case find (\<lambda>r. record_id r = i \<and> entityCode r = toUpperCase entityCodeParam)
                  (records st) of
             None \<Rightarrow> (Fail 404 ''Entity record not found'', st)
           | Some record0 \<Rightarrow>
               (case find (\<lambda>e. entity_id e = entityId record0) (entities st) of
                  None \<Rightarrow> (Fail 400 ''Activation is not enabled for this entity type'', st)
                | Some entity \<Rightarrow>
                    if \<not> activation_enabled (activation (derivedRecordConfig entity))
                    then (Fail 400 ''Activation is not enabled for this entity type'', st)
                    else
                      (let record1 = record0\<lparr> isActive := \<not> isActive record0,
                                              updatedBy := user \<rparr>
                       in case EntityRecord_save st now [] record1 of
                            Inl err \<Rightarrow>
                              (Fail 500 ''Server error while toggling entity record activation'',
                               st)
                          | Inr st' \<Rightarrow>
                              (Success 200 (record_id record1, isActive record1), st')))))"

definition deleteEntityRecord ::
  "store \<Rightarrow> string \<Rightarrow> nat option \<Rightarrow> string result \<times> store" where
  "deleteEntityRecord st entityCodeParam ident =
     (case ident of
        None \<Rightarrow> (Fail 400 ''Invalid ID format'', st)
      | Some i \<Rightarrow>
          (case find (\<lambda>r. record_id r = i \<and> entityCode r = toUpperCase entityCodeParam)
                  (records st) of
             None \<Rightarrow> (Fail 404 ''Entity record not found'', st)
           | Some record0 \<Rightarrow>
               (Success 200
                  (case find (\<lambda>e. entity_id e = entityId record0) (entities st) of
                     Some entity \<Rightarrow> name entity
                   | None \<Rightarrow> ''Unknown''),
                st\<lparr> records := deleteOne (\<lambda>x. record_id x = i) (records st) \<rparr>)))"

subsection \<open>getEntityRecords\<close>

text \<open>
  The query string: each parameter is absent (\<open>None\<close>) or a string; \<open>q_limit\<close> and \<open>q_page\<close>
  are what \<open>parseInt\<close> reads from a numeric string.
\<close>

record listQuery =
  q_search :: "string option"
  q_currentOnly :: "string option"
  q_active :: "string option"
  q_limit :: "int option"
  q_page :: "int option"

record recordQuery =
  query_entityCode :: string
  query_isCurrent :: "bool option"
  query_isActive :: "bool option"
  query_text :: "string option"

definition matchesQuery :: "documentModel \<Rightarrow> recordQuery \<Rightarrow> entityRecord \<Rightarrow> bool" where
  "matchesQuery dm q r =
     (entityCode r = query_entityCode q
      \<and> (case query_isCurrent q of Some b \<Rightarrow> isCurrent r = b | None \<Rightarrow> True)
      \<and> (case query_isActive q of Some b \<Rightarrow> isActive r = b | None \<Rightarrow> True)
      \<and> (case query_text q of Some t \<Rightarrow> textMatch dm t r | None \<Rightarrow> True))"

text \<open>
  \<open>.skip(skip).limit(limit)\<close> on the sorted matches: a limit of 0 is no limit, a negative
  one counts as its absolute value.
\<close>

definition paginate :: "int \<Rightarrow> int \<Rightarrow> 'a list \<Rightarrow> 'a list" where
  "paginate skip limit xs =
     (let rest = drop (nat skip) xs
      in if limit = 0 then rest else take (nat \<bar>limit\<bar>) rest)"

text \<open>
  The response of the listing: \<open>count\<close>, \<open>total\<close>, \<open>entityName\<close> and \<open>data\<close>
  (\<open>totalPages\<close> and \<open>currentPage\<close> are left out of the model).
\<close>

record listResponse =
  resp_count :: nat
  resp_total :: nat
  resp_entityName :: string
  resp_data :: "entityRecord list"

definition buildListQuery :: "string \<Rightarrow> listQuery \<Rightarrow> recordQuery" where
  "buildListQuery entityCodeParam q =
     (let currentOnly = orDefault (q_currentOnly q) ''true''
      in \<lparr> query_entityCode = toUpperCase entityCodeParam,
           query_isCurrent = (if currentOnly = ''true'' then Some True else None),
           query_isActive = (case q_active q of Some a \<Rightarrow> Some (a = ''true'') | None \<Rightarrow> None),
           query_text = (case q_search q of
                           Some s \<Rightarrow> if s \<noteq> [] then Some s else None
                         | None \<Rightarrow> None) \<rparr>)"

definition getEntityRecords ::
  "documentModel \<Rightarrow> store \<Rightarrow> string \<Rightarrow> listQuery \<Rightarrow> listResponse result" where
  "getEntityRecords dm st entityCodeParam q =
     (let query = buildListQuery entityCodeParam q;
          limit = orDefault (q_limit q) 20;
          page = orDefault (q_page q) 1;
          skip = (page - 1) * limit
      in case find (\<lambda>e. code e = toUpperCase entityCodeParam) (entities st) of
           None \<Rightarrow> Fail 404 (''Entity with code '' @ entityCodeParam @ '' not found'')
         | Some entity \<Rightarrow>
             if skip < 0 then Fail 500 ''Server error while fetching entity records''
             else
               (let matching = filter (matchesQuery dm query) (records st);
                    found = paginate skip limit (sort_key (\<lambda>r. - createdAt r) matching)
                in Success 200 \<lparr> resp_count = length found,
                                 resp_total = length matching,
                                 resp_entityName = name entity,
                                 resp_data = found \<rparr>))"

subsection \<open>getEntityRecordVersions and getBusinessKeyFields\<close>

fun setProperty :: "string \<Rightarrow> jsval \<Rightarrow> jsobject \<Rightarrow> jsobject" where
  "setProperty k v [] = [(k, v)]"
| "setProperty k v (p # ps) = (if fst p = k then (k, v) # ps else p # setProperty k v ps)"

text \<open>
  The required fields the data has, with their values; \<open>None\<close> (\<open>null\<close>) when there is
  none. \<open>data\<close> is an object here, so the \<open>!data\<close> exit is never taken; a field is
  looked up among the keys of the object.
\<close>

definition getBusinessKeyFields :: "entity \<Rightarrow> jsobject \<Rightarrow> jsobject option" where
  "getBusinessKeyFields entity d =
     (let businessKey =
            foldl (\<lambda>bk field.
                     case map_of d field of
                       Some v \<Rightarrow> if v \<noteq> JUndefined then setProperty field v bk else bk
                     | None \<Rightarrow> bk)
                  [] (required (schemaDefinition entity))
      in if businessKey \<noteq> [] then Some businessKey else None)"

text \<open>
  The condition \<open>data.key = value\<close> of the versions query, for scalar values and field
  names without dots: equality, and \<open>null\<close> also matches a document without the field.
\<close>

definition fieldMatches :: "jsobject \<Rightarrow> string \<times> jsval \<Rightarrow> bool" where
  "fieldMatches d kv =
     (case map_of d (fst kv) of
        None \<Rightarrow> snd kv = JNull
      | Some w \<Rightarrow> w = snd kv)"

record versionsResponse =
  versions_entityName :: string
  versions_count :: nat
  versions_data :: "entityRecord list"

definition getEntityRecordVersions ::
  "store \<Rightarrow> string \<Rightarrow> nat option \<Rightarrow> versionsResponse result" where
  "getEntityRecordVersions st entityCodeParam ident =
     (case ident of
        None \<Rightarrow> Fail 400 ''Invalid ID format''
      | Some i \<Rightarrow>
          (case find (\<lambda>r. record_id r = i \<and> entityCode r = toUpperCase entityCodeParam)
                  (records st) of
             None \<Rightarrow> Fail 404 ''Entity record not found''
           | Some currentRecord \<Rightarrow>
               (case find (\<lambda>e. entity_id e = entityId currentRecord) (entities st) of
                  None \<Rightarrow> Fail 404 ''Parent entity definition not found''
                | Some entity \<Rightarrow>
                    if \<not> versioning_enabled (versioning (derivedRecordConfig entity))
                    then Fail 400 ''Versioning is not enabled for this entity type''
                    else
                      (case getBusinessKeyFields entity (data currentRecord) of
                         None \<Rightarrow> Fail 400 ''Cannot determine business key for versioning''
                       | Some businessKey \<Rightarrow>
                           (let versions =
                                  sort_key (\<lambda>r. - version r)
                                    (filter (\<lambda>r. entityCode r = toUpperCase entityCodeParam
                                                 \<and> list_all (fieldMatches (data r)) businessKey)
                                       (records st))
                            in Success 200 \<lparr> versions_entityName = name entity,
                                             versions_count = length versions,
                                             versions_data = versions \<rparr>)))))"

section \<open>Example data\<close>

text \<open>
  A document model for the examples: the reserved names are the paths of
  \<open>entityRecordSchema\<close>; no example assigns one. The text search matches nothing.
\<close>

definition recordPaths :: "string list" where
  "recordPaths =
     [''_id'', ''entityId'', ''entityCode'', ''data'', ''isActive'', ''effectiveFrom'',
      ''effectiveTo'', ''version'', ''isCurrent'', ''expiredAt'', ''createdBy'', ''updatedBy'',
      ''createdAt'', ''updatedAt'']"

definition exampleModel :: documentModel where
  "exampleModel =
     \<lparr> reservedName = (\<lambda>k. k \<in> set recordPaths),
       constructorSet = (\<lambda>k v r. Inl (OtherError ''CastError'')),
       propertySet = (\<lambda>k v r. Inl (OtherError ''CastError'')),
       textMatch = (\<lambda>t r. False) \<rparr>"

definition emptyStore :: store where
  "emptyStore = \<lparr> entities = [], records = [], nextId = 1 \<rparr>"

text \<open>
  The definition \<open>CUSTOMER\<close> of the spec's scenario: \<open>customerCode\<close> required, versioning
  on; hierarchy (parent link \<open>parentId\<close>) and time bounding on as well.
\<close>

definition customerBody :: entityBody where
  "customerBody =
     \<lparr> body_code = JStr ''CUSTOMER'',
       body_name = Some ''Customer'',
       body_description = None,
       body_derivedRecordConfig = Some
         \<lparr> in_activation = Some
             \<lparr> in_activation_enabled = Some True, in_defaultState = Some True,
               in_entityActive = Some True, in_useTimeBounding = Some True \<rparr>,
           in_versioning = Some \<lparr> in_versioning_enabled = Some True \<rparr>,
           in_hierarchy = Some
             \<lparr> in_hierarchy_enabled = Some True, in_parentLinkField = None,
               in_linkType = None \<rparr> \<rparr>,
       body_config = None,
       body_isActive = None,
       body_schemaDefinition = Some
         \<lparr> in_type = Some ''object'',
           in_properties = Some [(''customerCode'', [(''type'', JStr ''string'')]),
                                 (''email'', [(''type'', JStr ''string'')])],
           in_required = Some [''customerCode''] \<rparr>,
       body_schema = None \<rparr>"

definition customer :: entity where
  "customer =
     \<lparr> entity_id = 1,
       code = ''CUSTOMER'',
       name = ''Customer'',
       description = None,
       derivedRecordConfig =
         \<lparr> activation = \<lparr> activation_enabled = True, defaultState = True,
                          entityActive = True, useTimeBounding = True \<rparr>,
           versioning = \<lparr> versioning_enabled = True \<rparr>,
           hierarchy = \<lparr> hierarchy_enabled = True, parentLinkField = ''parentId'',
                         linkType = ''_id'' \<rparr> \<rparr>,
       schemaDefinition =
         \<lparr> schema_type = ''object'',
           properties = [(''customerCode'', [(''type'', JStr ''string'')]),
                         (''email'', [(''type'', JStr ''string'')])],
           required = [''customerCode''] \<rparr>,
       entity_createdBy = 7,
       entity_createdAt = 1000,
       entity_updatedAt = 1000,
       entityIsActive = JUndefined \<rparr>"

text \<open>The store after \<open>CUSTOMER\<close> was created by user 7 at time 1000.\<close>

definition customerStore :: store where
  "customerStore = \<lparr> entities = [customer], records = [], nextId = 2 \<rparr>"

definition acme :: entityRecord where
  "acme =
     \<lparr> record_id = 2,
       entityId = 1,
       entityCode = ''CUSTOMER'',
       data = [(''customerCode'', JStr ''ACME001''), (''email'', JStr ''a@a.com'')],
       isActive = True,
       effectiveFrom = Some 2000,
       effectiveTo = None,
       version = 1,
       isCurrent = True,
       expiredAt = None,
       createdBy = 7,
       updatedBy = 7,
       createdAt = 2000,
       updatedAt = 2000 \<rparr>"

definition acmeData :: jsobject where
  "acmeData = [(''customerCode'', JStr ''ACME001''), (''email'', JStr ''a@a.com'')]"

definition acmeBody :: recordBody where
  "acmeBody =
     \<lparr> req_data = Some [(''customerCode'', JStr ''ACME001''), (''email'', JStr ''a@a.com'')],
       req_isActive = None,
       req_effectiveFrom = None,
       req_effectiveTo = None,
       req_parent = JUndefined \<rparr>"

text \<open>A store that holds a current and a retired revision of the same customer.\<close>

definition retiredAcme :: entityRecord where
  "retiredAcme = acme\<lparr> record_id := 3, isCurrent := False, expiredAt := Some 2500,
                        createdAt := 1500 \<rparr>"

definition twoRevisions :: store where
  "twoRevisions = \<lparr> entities = [customer], records = [retiredAcme, acme], nextId = 4 \<rparr>"

definition defaultQuery :: listQuery where
  "defaultQuery = \<lparr> q_search = None, q_currentOnly = None, q_active = None,
                     q_limit = None, q_page = None \<rparr>"

text \<open>
  The stores of the scenario: \<open>ACME001\<close> stored under \<open>CUSTOMER\<close>, the body of the update
  \<open>{email: 'b@b.com'}\<close>, the record as the update of user 7 at time 3000 would leave it,
  and the store with a second record of the same data, inserted at time 2100.
\<close>

definition customerWithAcme :: store where
  "customerWithAcme = \<lparr> entities = [customer], records = [acme], nextId = 3 \<rparr>"

definition emailBody :: recordBody where
  "emailBody =
     \<lparr> req_data = Some [(''customerCode'', JStr ''ACME001''), (''email'', JStr ''b@b.com'')],
       req_isActive = None,
       req_effectiveFrom = None,
       req_effectiveTo = None,
       req_parent = JUndefined \<rparr>"

definition acmeUpdated :: entityRecord where
  "acmeUpdated =
     acme\<lparr> data := [(''customerCode'', JStr ''ACME001''), (''email'', JStr ''b@b.com'')],
           updatedAt := 3000 \<rparr>"

definition acmeAgain :: entityRecord where
  "acmeAgain = acme\<lparr> record_id := 3, effectiveFrom := Some 2100, createdAt := 2100,
                      updatedAt := 2100 \<rparr>"

definition customerWithTwoAcme :: store where
  "customerWithTwoAcme = \<lparr> entities = [customer], records = [acme, acmeAgain], nextId = 4 \<rparr>"

text \<open>
  A store that holds a history: the first revision of \<open>ACME001\<close>, retired, its second
  revision, current, and a record of another customer.
\<close>

definition firstAcme :: entityRecord where
  "firstAcme = acme\<lparr> isCurrent := False, expiredAt := Some 3000 \<rparr>"

definition secondAcme :: entityRecord where
  "secondAcme =
     acme\<lparr> record_id := 3,
           data := [(''customerCode'', JStr ''ACME001''), (''email'', JStr ''b@b.com'')],
           version := 2, effectiveFrom := Some 3000, createdAt := 3000, updatedAt := 3000 \<rparr>"

definition globex :: entityRecord where
  "globex =
     acme\<lparr> record_id := 4,
           data := [(''customerCode'', JStr ''GLOBEX01''), (''email'', JStr ''g@g.com'')],
           effectiveFrom := Some 3500, createdAt := 3500, updatedAt := 3500 \<rparr>"

definition acmeHistory :: store where
  "acmeHistory =
     \<lparr> entities = [customer], records = [firstAcme, secondAcme, globex], nextId = 5 \<rparr>"

text \<open>A payload without the required \<open>customerCode\<close>, and with a number for \<open>email\<close>.\<close>

definition invalidBody :: recordBody where
  "invalidBody = acmeBody\<lparr> req_data := Some [(''email'', JNum 5)] \<rparr>"

definition invalidRecord :: entityRecord where
  "invalidRecord = acme\<lparr> data := [(''email'', JNum 5)] \<rparr>"

definition customerWithInvalid :: store where
  "customerWithInvalid = \<lparr> entities = [customer], records = [invalidRecord], nextId = 3 \<rparr>"

text \<open>A body with the start of the validity after its end.\<close>

definition backwardsBody :: recordBody where
  "backwardsBody = acmeBody\<lparr> req_effectiveFrom := Some (ValidDate 5000),
                              req_effectiveTo := Some (ValidDate 4000) \<rparr>"

text \<open>Patches of the definition, for the examples.\<close>

definition emptyBody :: entityBody where
  "emptyBody =
     \<lparr> body_code = JUndefined, body_name = None, body_description = None,
       body_derivedRecordConfig = None, body_config = None, body_isActive = None,
       body_schemaDefinition = None, body_schema = None \<rparr>"

definition disableVersioningBody :: entityBody where
  "disableVersioningBody =
     emptyBody\<lparr> body_derivedRecordConfig := Some
       \<lparr> in_activation = None,
         in_versioning = Some \<lparr> in_versioning_enabled = Some False \<rparr>,
         in_hierarchy = None \<rparr> \<rparr>"

definition renameBody :: entityBody where
  "renameBody = emptyBody\<lparr> body_name := Some ''Client'' \<rparr>"

text \<open>
  A patch that changes the activation settings only, and \<open>CUSTOMER\<close> as it reads after
  that patch was written at time 3000.
\<close>

definition activationOnlyBody :: entityBody where
  "activationOnlyBody =
     emptyBody\<lparr> body_derivedRecordConfig := Some
       \<lparr> in_activation = Some
           \<lparr> in_activation_enabled = Some True, in_defaultState = Some False,
             in_entityActive = Some True, in_useTimeBounding = Some True \<rparr>,
         in_versioning = None,
         in_hierarchy = None \<rparr> \<rparr>"

definition customerReset :: entity where
  "customerReset =
     customer\<lparr> derivedRecordConfig :=
                  \<lparr> activation = \<lparr> activation_enabled = True, defaultState = False,
                                   entityActive = True, useTimeBounding = True \<rparr>,
                    versioning = \<lparr> versioning_enabled = False \<rparr>,
                    hierarchy = \<lparr> hierarchy_enabled = False, parentLinkField = ''parentId'',
                                  linkType = ''_id'' \<rparr> \<rparr>,
               entity_updatedAt := 3000 \<rparr>"

section \<open>Predicates of the statements\<close>

text \<open>
  The patch carries \<open>enabled: false\<close> for a flag the stored definition has on: the two
  conditions \<open>updateEntity\<close> tests.
\<close>

definition disablesVersioning :: "entity \<Rightarrow> entityBody \<Rightarrow> bool" where
  "disablesVersioning e body =
     (versioning_enabled (versioning (derivedRecordConfig e))
      \<and> Option.bind (Option.bind (body_derivedRecordConfig body) in_versioning)
            in_versioning_enabled = Some False)"

definition disablesHierarchy :: "entity \<Rightarrow> entityBody \<Rightarrow> bool" where
  "disablesHierarchy e body =
     (hierarchy_enabled (hierarchy (derivedRecordConfig e))
      \<and> Option.bind (Option.bind (body_derivedRecordConfig body) in_hierarchy)
            in_hierarchy_enabled = Some False)"

text \<open>The ordering of the validity dates of a record, when both are set.\<close>

definition datesOrdered :: "entityRecord \<Rightarrow> bool" where
  "datesOrdered r =
     (case (effectiveFrom r, effectiveTo r) of
        (Some f, Some t) \<Rightarrow> f < t
      | _ \<Rightarrow> True)"

text \<open>
  The parent link field of the definition is no reserved name of the document model (as
  the default \<open>parentId\<close> is none).
\<close>

definition plainLink :: "documentModel \<Rightarrow> entity \<Rightarrow> bool" where
  "plainLink dm e = (\<not> reservedName dm (parentLinkField (hierarchy (derivedRecordConfig e))))"

text \<open>The store with the \<open>schemaDefinition\<close> of every definition replaced.\<close>

definition withSchemas :: "(entity \<Rightarrow> schemaDef) \<Rightarrow> store \<Rightarrow> store" where
  "withSchemas f st =
     st\<lparr> entities := map (\<lambda>e. e\<lparr> schemaDefinition := f e \<rparr>) (entities st) \<rparr>"

text \<open>The current records of a definition whose data resolve to the business key \<open>k\<close>.\<close>

definition currentWithKey :: "entity \<Rightarrow> jsobject \<Rightarrow> store \<Rightarrow> entityRecord list" where
  "currentWithKey e k st =
     filter (\<lambda>r. entityId r = entity_id e \<and> isCurrent r
                 \<and> getBusinessKeyFields e (data r) = Some k) (records st)"

section \<open>Evaluation of the examples\<close>

lemma upper_customer: "toUpperCase ''customer'' = ''CUSTOMER''"
  by (simp add: toUpperCase_def upperChar_def)

lemma upper_CUSTOMER: "toUpperCase ''CUSTOMER'' = ''CUSTOMER''"
  by (simp add: toUpperCase_def upperChar_def)

lemmas example_defs =
  upper_customer upper_CUSTOMER orDefault_def Let_def
  emptyStore_def customerBody_def customer_def customerStore_def
  acme_def acmeData_def acmeBody_def retiredAcme_def twoRevisions_def defaultQuery_def
  exampleModel_def recordPaths_def emptyBody_def disableVersioningBody_def renameBody_def
  emailBody_def acmeUpdated_def acmeAgain_def customerWithTwoAcme_def
  customerWithAcme_def invalidBody_def invalidRecord_def customerWithInvalid_def
  firstAcme_def secondAcme_def globex_def acmeHistory_def
  backwardsBody_def activationOnlyBody_def customerReset_def

lemmas record_defs =
  createEntityRecord_def EntityRecord_create_def newRecord_def buildRecordData_def
  dateCastErrors_def dateOr_def recordPreValidate_def trim_def isSpace_def
  updateEntityRecord_def assignRecordUpdate_def updateCastErrors_def EntityRecord_save_def
  recordCatch_def validationMessage_def

lemma createEntity_customer:
  "createEntity emptyStore 1000 7 customerBody = (Success 201 customer, customerStore)"
  by (simp add: example_defs createEntity_def buildEntityData_def createEntityErrors_def
      stringOf_def upperCased_def codePattern_def isCodeChar_def Entity_create_def configDefaults_def activationDefaults_def
      versioningDefaults_def hierarchyDefaults_def schemaDefaults_def entityPreValidate_def
      codeErrors_def nameErrors_def linkTypeErrors_def trim_def isSpace_def)

section \<open>Listing the records of a definition\<close>

lemma set_paginate: "set (paginate skip limit xs) \<subseteq> set xs"
  unfolding paginate_def Let_def
  by (auto dest: in_set_dropD in_set_takeD)

lemma list_current_example:
  "getEntityRecords exampleModel twoRevisions ''customer'' defaultQuery
     = Success 200 \<lparr> resp_count = 1, resp_total = 1, resp_entityName = ''Customer'',
                      resp_data = [acme] \<rparr>"
  by (simp add: example_defs getEntityRecords_def buildListQuery_def matchesQuery_def
      paginate_def)

lemma list_all_example:
  "getEntityRecords exampleModel twoRevisions ''customer''
       (defaultQuery\<lparr> q_currentOnly := Some ''false'' \<rparr>)
     = Success 200 \<lparr> resp_count = 2, resp_total = 2, resp_entityName = ''Customer'',
                      resp_data = [acme, retiredAcme] \<rparr>"
  by (simp add: example_defs getEntityRecords_def buildListQuery_def matchesQuery_def
      paginate_def)

text \<open>
  C10. A listing whose query has no \<open>currentOnly\<close> parameter (or has \<open>currentOnly=true\<close>)
  returns only records with \<open>isCurrent = true\<close>: the parameter defaults to \<open>'true'\<close>, which
  puts \<open>isCurrent: true\<close> into the query. With any other value of \<open>currentOnly\<close> the query
  has no condition on \<open>isCurrent\<close>, so retired revisions are listed as well.
\<close>

theorem getEntityRecords_current_only:
  "getEntityRecords dm st entityCodeParam q = Success status resp \<Longrightarrow>
     (q_currentOnly q = None \<or> q_currentOnly q = Some ''true''
        \<longrightarrow> (\<forall>r \<in> set (resp_data resp). isCurrent r))
     \<and> (\<forall>v. q_currentOnly q = Some v \<and> v \<noteq> ''true''
        \<longrightarrow> query_isCurrent (buildListQuery entityCodeParam q) = None)"
proof (intro conjI impI allI ballI)
  fix r
  assume ok: "getEntityRecords dm st entityCodeParam q = Success status resp"
    and dflt: "q_currentOnly q = None \<or> q_currentOnly q = Some ''true''"
    and r: "r \<in> set (resp_data resp)"
  from dflt have cur: "query_isCurrent (buildListQuery entityCodeParam q) = Some True"
    by (auto simp: buildListQuery_def orDefault_def)
  from ok r
  have "r \<in> set (filter (matchesQuery dm (buildListQuery entityCodeParam q)) (records st))"
    using set_paginate
    by (fastforce simp: getEntityRecords_def Let_def split: option.splits if_splits)
  then have "matchesQuery dm (buildListQuery entityCodeParam q) r" by simp
  with cur show "isCurrent r" by (simp add: matchesQuery_def)
next
  fix v
  assume "q_currentOnly q = Some v \<and> v \<noteq> ''true''"
  then show "query_isCurrent (buildListQuery entityCodeParam q) = None"
    by (simp add: buildListQuery_def orDefault_def)
qed

text \<open>
  In a store with a current and a retired revision, the default listing returns the
  current one only; with \<open>currentOnly=false\<close> both are returned.
\<close>

theorem getEntityRecords_current_only_witness:
  "getEntityRecords exampleModel twoRevisions ''customer'' defaultQuery
     = Success 200 \<lparr> resp_count = 1, resp_total = 1, resp_entityName = ''Customer'',
                      resp_data = [acme] \<rparr>
   \<and> q_currentOnly defaultQuery = None
   \<and> list_all isCurrent [acme]
   \<and> \<not> isCurrent retiredAcme
   \<and> retiredAcme \<in> set (records twoRevisions)"
proof -
  note h = list_current_example
  have "\<forall>r \<in> set (resp_data \<lparr> resp_count = 1, resp_total = 1,
          resp_entityName = ''Customer'', resp_data = [acme] \<rparr>). isCurrent r"
    using getEntityRecords_current_only [OF h] by (simp add: defaultQuery_def)
  then show ?thesis using h
    by (simp add: defaultQuery_def retiredAcme_def twoRevisions_def)
qed

section \<open>Updating a definition\<close>

lemma strip_keeps_config:
  "body_derivedRecordConfig (if truthy (body_code b) then b\<lparr> body_code := JUndefined \<rparr> else b)
     = body_derivedRecordConfig b"
  by simp

text \<open>
  The test of \<open>updateEntity\<close>: when the stored definition has \<open>versioning.enabled\<close> (or
  \<open>hierarchy.enabled\<close>) true and the patch carries \<open>enabled: false\<close> for that flag, the
  update fails with status 400 (\<open>Cannot disable versioning once it has been enabled\<close>, or
  the message for hierarchy when only that flag is turned off) and the store is unchanged;
  a request that fails the route's check of \<open>name\<close> is answered with that validation
  failure first, the store unchanged as well. This holds for every store semantics \<open>ns\<close>
  of the nested \<open>$set\<close>.
\<close>

lemma updateEntity_rejects_disabling:
  assumes found: "find (\<lambda>e. entity_id e = i) (entities st) = Some entity"
    and off: "disablesVersioning entity body \<or> disablesHierarchy entity body"
  shows "updateEntity ns st now (Some i) body =
     (if body_name body = Some []
      then FailErrors 400 [''Entity name is required if provided'']
      else if disablesVersioning entity body
      then Fail 400 ''Cannot disable versioning once it has been enabled''
      else Fail 400 ''Cannot disable hierarchy once it has been enabled'', st)"
  using found off
  by (auto simp: updateEntity_def Let_def disablesVersioning_def disablesHierarchy_def
      strip_keeps_config split: option.splits)

lemma disable_versioning_example:
  "updateEntity ns customerStore 3000 (Some 1) disableVersioningBody
    = (Fail 400 ''Cannot disable versioning once it has been enabled'', customerStore)"
proof -
  have f: "find (\<lambda>e. entity_id e = 1) (entities customerStore) = Some customer"
    by (simp add: example_defs)
  have d: "disablesVersioning customer disableVersioningBody"
    by (simp add: example_defs disablesVersioning_def)
  from updateEntity_rejects_disabling [OF f disjI1 [OF d], of ns 3000]
  show ?thesis by (simp add: example_defs disablesVersioning_def)
qed

text \<open>
  C6. Once \<open>versioning.enabled\<close> or \<open>hierarchy.enabled\<close> is true it should never become
  false again. A patch that names the flag with \<open>false\<close> is refused (the lemma above), but
  a patch that carries \<open>derivedRecordConfig\<close> without the flag passes the test, since the
  test compares the patch's flag with \<open>false\<close> only: \<open>CUSTOMER\<close> has versioning and
  hierarchy on, the patch \<open>{derivedRecordConfig: {activation: {...}}}\<close> is accepted, the
  stored \<open>derivedRecordConfig\<close> is replaced by the object of the patch, and both flags read
  \<open>false\<close> afterwards.
\<close>

theorem flags_reset_by_partial_patch:
  "versioning_enabled (versioning (derivedRecordConfig customer)) = True
   \<and> hierarchy_enabled (hierarchy (derivedRecordConfig customer)) = True
   \<and> updateEntity replaceNested customerStore 3000 (Some 1) activationOnlyBody
       = (Success 200 customerReset, customerStore\<lparr> entities := [customerReset] \<rparr>)
   \<and> versioning_enabled (versioning (derivedRecordConfig customerReset)) = False
   \<and> hierarchy_enabled (hierarchy (derivedRecordConfig customerReset)) = False"
  by (simp add: example_defs updateEntity_def Entity_findByIdAndUpdate_def replaceNested_def
      configDefaults_def activationDefaults_def versioningDefaults_def hierarchyDefaults_def
      linkTypeErrors_def trim_def isSpace_def)

section \<open>The code of a definition\<close>

lemma stringOf_zero: "stringOf (JNum 0) = ''0''"
  by (simp add: stringOf_def numberToString_def digitsOf.simps [of 0])

lemma upper_zero: "toUpperCase ''0'' = ''0''"
  by (simp add: toUpperCase_def upperChar_def)

lemma Entity_create_Inr:
  assumes "Entity_create st now d = Inr (e, st')"
  shows "code e = toUpperCase (trim (data_code d)) \<and> entities st' = entities st @ [e]
         \<and> records st' = records st \<and> entityIsActive e = JUndefined"
  using assms unfolding Entity_create_def Let_def
  by (auto split: option.splits if_splits)

lemma createEntity_cases:
  "snd (createEntity st now user body) = st
   \<and> (\<forall>status e. fst (createEntity st now user body) \<noteq> Success status e)
   \<or> (\<exists>c n e st'.
        upperCased (body_code body) = Some c \<and> body_name body = Some n
        \<and> createEntityErrors body = []
        \<and> Entity_create st now (buildEntityData user c n body) = Inr (e, st')
        \<and> createEntity st now user body = (Success 201 e, st'))"
  unfolding createEntity_def Let_def
  by (auto split: option.splits sum.splits mongooseError.splits prod.splits)

lemma codeChar_not_space: "isCodeChar c \<Longrightarrow> \<not> isSpace c"
  by (auto simp: isCodeChar_def isSpace_def)

lemma upperChar_fixed: "c \<notin> set ''abcdefghijklmnopqrstuvwxyz'' \<Longrightarrow> upperChar c = c"
  unfolding upperChar_def
  by (simp add: map_of_eq_None_iff [THEN iffD2])

lemma codeChar_upper: "isCodeChar c \<Longrightarrow> upperChar c = c"
  by (rule upperChar_fixed) (auto simp: isCodeChar_def)

lemma codePattern_upper: "codePattern s \<Longrightarrow> toUpperCase s = s"
  by (simp add: codePattern_def toUpperCase_def list_all_iff codeChar_upper map_idI)

lemma codePattern_trim: "codePattern s \<Longrightarrow> trim s = s"
proof -
  assume cp: "codePattern s"
  then have ne: "s \<noteq> []" and all: "\<forall>c \<in> set s. \<not> isSpace c"
    by (auto simp: codePattern_def list_all_iff codeChar_not_space)
  from ne all have "\<not> isSpace (hd s)" by (cases s) auto
  then have 1: "dropWhile isSpace s = s" by (simp add: dropWhile_eq_self_iff)
  from ne all have "\<not> isSpace (hd (rev s))" by (simp add: hd_rev)
  then have 2: "dropWhile isSpace (rev s) = rev s" by (simp add: dropWhile_eq_self_iff)
  show ?thesis by (simp add: trim_def 1 2)
qed

text \<open>
  The code a successful \<open>createEntity\<close> stores is the code of the body (which the route
  accepts only when it matches the pattern, so that upper-casing leaves it as it is).
\<close>

lemma createEntity_code:
  assumes ok: "createEntity st now user body = (Success status e, st')"
  shows "codePattern (stringOf (body_code body))
         \<and> code e = toUpperCase (stringOf (body_code body))
         \<and> e \<in> set (entities st')"
proof -
  from createEntity_cases [of st now user body] ok
  obtain c n where up: "upperCased (body_code body) = Some c"
    and noerr: "createEntityErrors body = []"
    and cr: "Entity_create st now (buildEntityData user c n body) = Inr (e, st')"
    by auto
  from noerr have cp: "codePattern (stringOf (body_code body))"
    by (auto simp: createEntityErrors_def Let_def split: if_splits)
  from up have "c = stringOf (body_code body) \<or> c = toUpperCase (stringOf (body_code body))"
    by (auto simp: upperCased_def stringOf_def split: jsval.splits if_splits)
  with codePattern_upper [OF cp] have c: "c = stringOf (body_code body)" by auto
  have "data_code (buildEntityData user c n body) = c" by (simp add: buildEntityData_def)
  with Entity_create_Inr [OF cr] c cp show ?thesis
    by (simp add: codePattern_upper codePattern_trim)
qed

lemma updateOne_first:
  "find p xs = Some old \<Longrightarrow> g y = g old \<Longrightarrow> map g (updateOne p (\<lambda>x. y) xs) = map g xs"
  by (induction xs) (auto split: if_splits)

text \<open>
  A patch whose \<open>code\<close> is truthy is handled as the same patch without the key: the
  handler deletes it.
\<close>

lemma updateEntity_code_stripped:
  "truthy (body_code body) \<Longrightarrow>
   updateEntity ns st now ident body
     = updateEntity ns st now ident (body\<lparr> body_code := JUndefined \<rparr>)"
  by (simp add: updateEntity_def Let_def)

lemma rename_example:
  "updateEntity ns customerStore 3000 (Some 1) (renameBody\<lparr> body_code := JStr ''OTHER'' \<rparr>)
    = (Success 200 (customer\<lparr> name := ''Client'', entity_updatedAt := 3000 \<rparr>),
       customerStore\<lparr> entities := [customer\<lparr> name := ''Client'',
                                               entity_updatedAt := 3000 \<rparr>] \<rparr>)"
  by (simp add: example_defs updateEntity_def Entity_findByIdAndUpdate_def nameErrors_def
      trim_def isSpace_def)

lemma empty_code_example:
  "updateEntity ns customerStore 3000 (Some 1) (renameBody\<lparr> body_code := JStr [] \<rparr>)
    = (Fail 400 ''Entity code is required.'', customerStore)"
  by (simp add: example_defs updateEntity_def Entity_findByIdAndUpdate_def nameErrors_def
      codeErrors_def stringOf_def trim_def isSpace_def toUpperCase_def)

lemma zero_code_example:
  "updateEntity ns customerStore 3000 (Some 1) (emptyBody\<lparr> body_code := JNum 0 \<rparr>)
    = (Success 200 (customer\<lparr> code := ''0'', entity_updatedAt := 3000 \<rparr>),
       customerStore\<lparr> entities := [customer\<lparr> code := ''0'', entity_updatedAt := 3000 \<rparr>] \<rparr>)"
  by (simp add: example_defs updateEntity_def Entity_findByIdAndUpdate_def stringOf_zero
      upper_zero codeErrors_def codePattern_def isCodeChar_def trim_def isSpace_def)

text \<open>
  C7. The code of a definition should never change after the create, and an update whose
  patch carries a \<open>code\<close> should succeed with the code left out and the other fields
  applied. \<open>updateEntity\<close> deletes the key only when its value is truthy
  (\<^verbatim>\<open>if (req.body.code)\<close>), and the \<open>pre('findOneAndUpdate')\<close> hook of the model refuses a
  truthy \<open>code\<close> only. The patch \<open>{code: 0}\<close> passes both tests, the String path casts
  the value to \<open>'0'\<close>, which its validators accept, and the stored code of \<open>CUSTOMER\<close>
  becomes \<open>0\<close>. The patch \<open>{name: 'Client', code: ''}\<close> passes both tests too and the
  \<open>required\<close> validator of the path refuses it: the update is answered 400 and the name
  is not applied. A patch whose \<open>code\<close> is a non-empty string is handled as claimed. The
  handler's comment (\<open>Remove code from update payload (immutable)\<close>) and the API
  documentation (\<open>the code field will be ignored\<close>) say what is meant.
\<close>

theorem code_changed_by_update:
  "createEntity emptyStore 1000 7 customerBody = (Success 201 customer, customerStore)
   \<and> code customer = ''CUSTOMER''
   \<and> updateEntity replaceNested customerStore 3000 (Some 1) (emptyBody\<lparr> body_code := JNum 0 \<rparr>)
       = (Success 200 (customer\<lparr> code := ''0'', entity_updatedAt := 3000 \<rparr>),
          customerStore\<lparr> entities := [customer\<lparr> code := ''0'',
                                                  entity_updatedAt := 3000 \<rparr>] \<rparr>)
   \<and> code (customer\<lparr> code := ''0'', entity_updatedAt := 3000 \<rparr>) \<noteq> code customer
   \<and> updateEntity replaceNested customerStore 3000 (Some 1)
         (renameBody\<lparr> body_code := JStr [] \<rparr>)
       = (Fail 400 ''Entity code is required.'', customerStore)
   \<and> updateEntity replaceNested customerStore 3000 (Some 1)
         (renameBody\<lparr> body_code := JStr ''OTHER'' \<rparr>)
       = (Success 200 (customer\<lparr> name := ''Client'', entity_updatedAt := 3000 \<rparr>),
          customerStore\<lparr> entities := [customer\<lparr> name := ''Client'',
                                                  entity_updatedAt := 3000 \<rparr>] \<rparr>)"
  using createEntity_customer zero_code_example [of replaceNested]
    empty_code_example [of replaceNested] rename_example [of replaceNested]
  by (simp add: customer_def)

section \<open>Creating and updating records\<close>

subsection \<open>The scenario, evaluated\<close>

text \<open>The handlers, on the definition as \<open>createEntity\<close> built it.\<close>

lemma create_refused_example:
  "createEntityRecord exampleModel customerStore 2000 7 ''customer'' acmeBody
     = (Fail 400 ''Entity Customer is currently inactive and cannot accept new records'',
        customerStore)"
  by (simp add: example_defs record_defs)

lemma update_refused_example:
  "updateEntityRecord exampleModel customerWithAcme 3000 7 ''customer'' (Some 2) emailBody
     = (Fail 400 ''Entity Customer is currently inactive and records cannot be updated'',
        customerWithAcme)"
  by (simp add: example_defs record_defs)

text \<open>
  The steps of the handlers behind the activity check, on the same definition: the
  \<open>recordData\<close> object of the create given to \<open>EntityRecord.create\<close>, and the
  assignments of the update followed by the save.
\<close>

lemma model_create_acme:
  "EntityRecord_create exampleModel customerStore 2000
       (buildRecordData customer 7 acmeData acmeBody)
     = Inr (acme, customerWithAcme)"
  by (simp add: example_defs record_defs)

lemma model_create_again:
  "EntityRecord_create exampleModel customerWithAcme 2100
       (buildRecordData customer 7 acmeData acmeBody)
     = Inr (acmeAgain, customerWithTwoAcme)"
  by (simp add: example_defs record_defs)

lemma model_create_parent:
  "EntityRecord_create exampleModel customerStore 2000
       (buildRecordData customer 7 acmeData (acmeBody\<lparr> req_parent := JStr ''P1'' \<rparr>))
     = Inr (acme, customerWithAcme)"
  by (simp add: example_defs record_defs)

lemma model_create_invalid:
  "EntityRecord_create exampleModel customerStore 2000
       (buildRecordData customer 7 [(''email'', JNum 5)] invalidBody)
     = Inr (invalidRecord, customerWithInvalid)"
  by (simp add: example_defs record_defs)

lemma model_create_backwards:
  "EntityRecord_create exampleModel customerStore 2000
       (buildRecordData customer 7 acmeData backwardsBody)
     = Inl (ValidationError [(''effectiveTo'', ''Effective end date must be after effective start date'')])"
  by (simp add: example_defs record_defs)

lemma assign_example:
  "assignRecordUpdate exampleModel customer 7 emailBody acme
     = Inr (acme\<lparr> data := [(''customerCode'', JStr ''ACME001''), (''email'', JStr ''b@b.com'')] \<rparr>)"
  by (simp add: example_defs record_defs)

lemma save_example:
  "EntityRecord_save customerWithAcme 3000 (updateCastErrors customer emailBody)
       (acme\<lparr> data := [(''customerCode'', JStr ''ACME001''), (''email'', JStr ''b@b.com'')] \<rparr>)
     = Inr (customerWithAcme\<lparr> records := [acmeUpdated] \<rparr>)"
  by (simp add: example_defs record_defs)



subsection \<open>What a create and an update do to the store\<close>

lemma preValidate_ordered: "recordPreValidate r = [] \<longleftrightarrow> datesOrdered r"
  by (auto simp: recordPreValidate_def datesOrdered_def split: option.splits)

lemma EntityRecord_create_Inr:
  assumes "EntityRecord_create dm st now rd = Inr (r, st')"
  shows "st' = st\<lparr> records := records st @ [r], nextId := Suc (nextId st) \<rparr>
         \<and> datesOrdered r
         \<and> rd_effectiveFrom rd \<noteq> Some InvalidDate \<and> rd_effectiveTo rd \<noteq> Some InvalidDate
         \<and> ((case rd_dynamic rd of Some (k, v) \<Rightarrow> \<not> reservedName dm k | None \<Rightarrow> True)
              \<longrightarrow> r = newRecord st now rd)"
  using assms unfolding EntityRecord_create_def Let_def
  by (auto simp: preValidate_ordered dateCastErrors_def
      split: option.splits if_splits sum.splits prod.splits dateval.splits)

lemma createEntityRecord_cases:
  "snd (createEntityRecord dm st now user p body) = st
   \<and> (\<forall>status r. fst (createEntityRecord dm st now user p body) \<noteq> Success status r)
   \<or> (\<exists>bodyData entity r st'.
        req_data body = Some bodyData
        \<and> find (\<lambda>e. code e = toUpperCase p) (entities st) = Some entity
        \<and> truthy (entityIsActive entity)
        \<and> EntityRecord_create dm st now (buildRecordData entity user bodyData body) = Inr (r, st')
        \<and> createEntityRecord dm st now user p body = (Success 201 r, st'))"
  unfolding createEntityRecord_def recordCatch_def
  by (auto split: option.splits sum.splits prod.splits mongooseError.splits)

lemma find_SomeD: "find p xs = Some x \<Longrightarrow> p x \<and> x \<in> set xs"
  by (induction xs) (auto split: if_splits)

lemma list_all_updateOne:
  "list_all P xs \<Longrightarrow> P y \<Longrightarrow> list_all P (updateOne p (\<lambda>x. y) xs)"
  by (induction xs) auto

lemma list_all_deleteOne: "list_all P xs \<Longrightarrow> list_all P (deleteOne p xs)"
  by (induction xs) auto

lemma EntityRecord_save_Inr:
  assumes "EntityRecord_save st now errs r = Inr st'"
  shows "datesOrdered r \<and> errs = []
         \<and> st' = st\<lparr> records := updateOne (\<lambda>x. record_id x = record_id r)
                                   (\<lambda>x. r\<lparr> updatedAt := now \<rparr>) (records st) \<rparr>"
  using assms unfolding EntityRecord_save_def Let_def
  by (auto simp: preValidate_ordered split: if_splits)

lemma datesOrdered_updatedAt: "datesOrdered (r\<lparr> updatedAt := t \<rparr>) = datesOrdered r"
  by (simp add: datesOrdered_def)

lemma save_keeps_order:
  assumes inv: "list_all datesOrdered (records st)"
    and sv: "EntityRecord_save st now errs r = Inr st'"
  shows "list_all datesOrdered (records st')"
proof -
  from EntityRecord_save_Inr [OF sv] have o: "datesOrdered r"
    and st': "st' = st\<lparr> records := updateOne (\<lambda>x. record_id x = record_id r)
                                   (\<lambda>x. r\<lparr> updatedAt := now \<rparr>) (records st) \<rparr>"
    by auto
  from o have "datesOrdered (r\<lparr> updatedAt := now \<rparr>)" by (simp add: datesOrdered_updatedAt)
  from list_all_updateOne [OF inv this] st' show ?thesis by simp
qed

lemma create_keeps_order:
  assumes inv: "list_all datesOrdered (records st)"
  shows "list_all datesOrdered (records (snd (createEntityRecord dm st now user p body)))"
proof -
  from createEntityRecord_cases [of dm st now user p body]
  show ?thesis
  proof (elim disjE conjE exE)
    assume "snd (createEntityRecord dm st now user p body) = st"
    with inv show ?thesis by simp
  next
    fix bodyData entity r st'
    assume cr: "EntityRecord_create dm st now (buildRecordData entity user bodyData body)
                  = Inr (r, st')"
      and res: "createEntityRecord dm st now user p body = (Success 201 r, st')"
    from EntityRecord_create_Inr [OF cr] inv have "list_all datesOrdered (records st')"
      by auto
    with res show ?thesis by simp
  qed
qed

lemma update_keeps_order:
  assumes inv: "list_all datesOrdered (records st)"
  shows "list_all datesOrdered (records (snd (updateEntityRecord dm st now user p ident body)))"
proof -
  have "snd (updateEntityRecord dm st now user p ident body) = st
        \<or> (\<exists>errs r. EntityRecord_save st now errs r
               = Inr (snd (updateEntityRecord dm st now user p ident body)))"
    unfolding updateEntityRecord_def
    by (simp split: option.splits sum.splits) blast
  with inv save_keeps_order [OF inv] show ?thesis by auto
qed

lemma toggle_keeps_order:
  assumes inv: "list_all datesOrdered (records st)"
  shows "list_all datesOrdered (records (snd (toggleEntityRecordActivation st now user p ident)))"
proof -
  have "snd (toggleEntityRecordActivation st now user p ident) = st
        \<or> (\<exists>errs r. EntityRecord_save st now errs r
               = Inr (snd (toggleEntityRecordActivation st now user p ident)))"
    unfolding toggleEntityRecordActivation_def Let_def
    by (simp split: option.splits sum.splits) blast
  with inv save_keeps_order [OF inv] show ?thesis by auto
qed

lemma delete_keeps_order:
  assumes inv: "list_all datesOrdered (records st)"
  shows "list_all datesOrdered (records (snd (deleteEntityRecord st p ident)))"
  using inv unfolding deleteEntityRecord_def
  by (simp add: list_all_deleteOne split: option.splits)

lemma create_backwards:
  assumes tb: "useTimeBounding (activation (derivedRecordConfig entity))"
    and plain: "plainLink dm entity"
    and f: "req_effectiveFrom body = Some (ValidDate f)"
    and t: "req_effectiveTo body = Some (ValidDate t)"
    and le: "t \<le> f"
  shows "EntityRecord_create dm st now (buildRecordData entity user bodyData body)
     = Inl (ValidationError
         [(''effectiveTo'', ''Effective end date must be after effective start date'')])"
  using assms unfolding EntityRecord_create_def Let_def
  by (simp add: buildRecordData_def Let_def plainLink_def newRecord_def dateCastErrors_def
      dateOr_def recordPreValidate_def)

subsection \<open>The schema of the definition plays no part\<close>

lemma find_map_code:
  "find (\<lambda>e. code e = c) (map (\<lambda>e. e\<lparr> schemaDefinition := f e \<rparr>) es)
     = map_option (\<lambda>e. e\<lparr> schemaDefinition := f e \<rparr>) (find (\<lambda>e. code e = c) es)"
  by (induction es) auto

lemma find_map_id:
  "find (\<lambda>e. entity_id e = i) (map (\<lambda>e. e\<lparr> schemaDefinition := f e \<rparr>) es)
     = map_option (\<lambda>e. e\<lparr> schemaDefinition := f e \<rparr>) (find (\<lambda>e. entity_id e = i) es)"
  by (induction es) auto

lemma buildRecordData_schema:
  "buildRecordData (e\<lparr> schemaDefinition := s \<rparr>) user bodyData body
     = buildRecordData e user bodyData body"
  by (simp add: buildRecordData_def)

lemma EntityRecord_create_schema:
  "EntityRecord_create dm (withSchemas f st) now rd
     = map_sum id (map_prod id (withSchemas f)) (EntityRecord_create dm st now rd)"
  unfolding EntityRecord_create_def Let_def
  by (auto simp: withSchemas_def newRecord_def split: option.splits sum.splits)


lemma createEntityRecord_schema:
  "createEntityRecord dm (withSchemas f st) now user p body
     = map_prod id (withSchemas f) (createEntityRecord dm st now user p body)"
proof (cases "req_data body")
  case None
  then show ?thesis by (simp add: createEntityRecord_def)
next
  case (Some bodyData)
  have e: "entities (withSchemas f st) = map (\<lambda>e. e\<lparr> schemaDefinition := f e \<rparr>) (entities st)"
    by (simp add: withSchemas_def)
  show ?thesis
  proof (cases "find (\<lambda>e. code e = toUpperCase p) (entities st)")
    case None
    with Some show ?thesis by (simp add: createEntityRecord_def e find_map_code)
  next
    case (Some entity) note found = this
    show ?thesis
    proof (cases "truthy (entityIsActive entity)")
      case False
      with \<open>req_data body = Some bodyData\<close> found show ?thesis
        by (simp add: createEntityRecord_def e find_map_code)
    next
      case True
      show ?thesis
      proof (cases "EntityRecord_create dm st now (buildRecordData entity user bodyData body)")
        case (Inl err)
        with True \<open>req_data body = Some bodyData\<close> found show ?thesis
          by (simp add: createEntityRecord_def e find_map_code buildRecordData_schema
              EntityRecord_create_schema)
      next
        case (Inr res)
        with True \<open>req_data body = Some bodyData\<close> found show ?thesis
          by (cases res)
             (simp add: createEntityRecord_def e find_map_code buildRecordData_schema
              EntityRecord_create_schema)
      qed
    qed
  qed
qed


lemma assignRecordUpdate_schema:
  "assignRecordUpdate dm (e\<lparr> schemaDefinition := s \<rparr>) user body r
     = assignRecordUpdate dm e user body r"
  by (simp add: assignRecordUpdate_def)

lemma updateCastErrors_schema:
  "updateCastErrors (e\<lparr> schemaDefinition := s \<rparr>) body = updateCastErrors e body"
  by (simp add: updateCastErrors_def)

lemma EntityRecord_save_schema:
  "EntityRecord_save (withSchemas f st) now errs r
     = map_sum id (withSchemas f) (EntityRecord_save st now errs r)"
  unfolding EntityRecord_save_def Let_def
  by (simp add: withSchemas_def)

lemma updateEntityRecord_schema:
  "updateEntityRecord dm (withSchemas f st) now user p ident body
     = map_prod id (withSchemas f) (updateEntityRecord dm st now user p ident body)"
proof (cases ident)
  case None
  then show ?thesis by (simp add: updateEntityRecord_def)
next
  case (Some i)
  have e: "entities (withSchemas f st) = map (\<lambda>e. e\<lparr> schemaDefinition := f e \<rparr>) (entities st)"
    and r: "\<And>s. records (withSchemas f s) = records s"
    by (simp_all add: withSchemas_def)
  show ?thesis
  proof (cases "find (\<lambda>r. record_id r = i \<and> entityCode r = toUpperCase p) (records st)")
    case None
    with Some show ?thesis by (simp add: updateEntityRecord_def r)
  next
    case (Some record0) note rec = this
    show ?thesis
    proof (cases "find (\<lambda>e. entity_id e = entityId record0) (entities st)")
      case None
      with \<open>ident = Some i\<close> rec show ?thesis
        by (simp add: updateEntityRecord_def r e find_map_id)
    next
      case (Some entity) note ent = this
      show ?thesis
      proof (cases "truthy (entityIsActive entity)")
        case False
        with \<open>ident = Some i\<close> rec ent show ?thesis
          by (simp add: updateEntityRecord_def r e find_map_id)
      next
        case True
        show ?thesis
        proof (cases "assignRecordUpdate dm entity user body record0")
          case (Inl err)
          with True \<open>ident = Some i\<close> rec ent show ?thesis
            by (simp add: updateEntityRecord_def r e find_map_id assignRecordUpdate_schema)
        next
          case (Inr rec5)
          show ?thesis
          proof (cases "EntityRecord_save st now (updateCastErrors entity body) rec5")
            case (Inl err)
            with Inr True \<open>ident = Some i\<close> rec ent show ?thesis
              by (simp add: updateEntityRecord_def r e find_map_id assignRecordUpdate_schema
                  updateCastErrors_schema EntityRecord_save_schema)
          next
            case (Inr st')
            with \<open>assignRecordUpdate dm entity user body record0 = Inr rec5\<close>
              True \<open>ident = Some i\<close> rec ent show ?thesis
              by (simp add: updateEntityRecord_def r e find_map_id assignRecordUpdate_schema
                  updateCastErrors_schema EntityRecord_save_schema)
          qed
        qed
      qed
    qed
  qed
qed

section \<open>The activity check of the record handlers\<close>

text \<open>
  The record handlers test \<^verbatim>\<open>entity.entityIsActive\<close>. A definition whose property is not
  truthy is refused. Every definition built by \<open>createEntity\<close> has it undefined, and
  \<open>updateEntity\<close> and \<open>toggleEntityActivation\<close> leave it so (the toggle flips
  \<open>entityActive\<close>); on a store filled by these handlers no record is ever created.
\<close>

lemma createEntityRecord_activity:
  assumes "find (\<lambda>e. code e = toUpperCase p) (entities st) = Some entity"
    and "\<not> truthy (entityIsActive entity)"
  shows "createEntityRecord dm st now user p body
     = (if req_data body = None then FailErrors 400 [''Record data is required'']
        else Fail 400 (''Entity '' @ name entity
               @ '' is currently inactive and cannot accept new records''), st)"
  using assms by (simp add: createEntityRecord_def split: option.splits)

lemma createEntity_as_built:
  assumes "list_all (\<lambda>e. entityIsActive e = JUndefined) (entities st)"
  shows "list_all (\<lambda>e. entityIsActive e = JUndefined)
           (entities (snd (createEntity st now user body)))"
proof -
  from createEntity_cases [of st now user body]
  show ?thesis
  proof (elim disjE exE conjE)
    fix c n e st'
    assume cr: "Entity_create st now (buildEntityData user c n body) = Inr (e, st')"
      and res: "createEntity st now user body = (Success 201 e, st')"
    from Entity_create_Inr [OF cr] assms res show ?thesis by simp
  qed (simp add: assms)
qed

lemma as_built_never_creates:
  assumes "list_all (\<lambda>e. entityIsActive e = JUndefined) (entities st)"
  shows "snd (createEntityRecord dm st now user p body) = st
         \<and> (\<forall>status r. fst (createEntityRecord dm st now user p body) \<noteq> Success status r)"
proof -
  from createEntityRecord_cases [of dm st now user p body]
  show ?thesis
  proof (elim disjE exE conjE)
    fix bodyData entity r st'
    assume f: "find (\<lambda>e. code e = toUpperCase p) (entities st) = Some entity"
      and t: "truthy (entityIsActive entity)"
    from find_SomeD [OF f] assms have "entityIsActive entity = JUndefined"
      by (auto simp: list_all_iff)
    with t show ?thesis by simp
  qed simp
qed

lemma toggle_as_built:
  assumes "list_all (\<lambda>e. entityIsActive e = JUndefined) (entities st)"
  shows "list_all (\<lambda>e. entityIsActive e = JUndefined)
           (entities (snd (toggleEntityActivation st now ident)))"
proof (cases ident)
  case None
  with assms show ?thesis by (simp add: toggleEntityActivation_def)
next
  case (Some i)
  show ?thesis
  proof (cases "find (\<lambda>e. entity_id e = i) (entities st)")
    case None
    with Some assms show ?thesis by (simp add: toggleEntityActivation_def)
  next
    case (Some entity)
    with find_SomeD [OF Some] assms have u: "entityIsActive entity = JUndefined"
      by (auto simp: list_all_iff)
    from \<open>ident = Some i\<close> Some assms u show ?thesis
      by (simp add: toggleEntityActivation_def Let_def list_all_updateOne
          split: option.splits)
  qed
qed

lemma as_built_map:
  "list_all (\<lambda>e. entityIsActive e = JUndefined) es
     \<longleftrightarrow> list_all (\<lambda>v. v = JUndefined) (map entityIsActive es)"
  by (simp add: list_all_iff)

lemma findByIdAndUpdate_activity:
  assumes "Entity_findByIdAndUpdate ns st now i u = Inr (r, st')"
  shows "map entityIsActive (entities st') = map entityIsActive (entities st)"
proof (cases "find (\<lambda>x. entity_id x = i) (entities st)")
  case None
  with assms show ?thesis
    by (auto simp: Entity_findByIdAndUpdate_def split: if_splits)
next
  case (Some e)
  with assms show ?thesis
    unfolding Entity_findByIdAndUpdate_def Let_def
    by (auto simp: updateOne_first [OF Some] split: if_splits)
qed

lemma update_as_built:
  assumes "list_all (\<lambda>e. entityIsActive e = JUndefined) (entities st)"
  shows "list_all (\<lambda>e. entityIsActive e = JUndefined)
           (entities (snd (updateEntity ns st now ident body)))"
proof -
  have "snd (updateEntity ns st now ident body) = st
    \<or> (\<exists>i u r. Entity_findByIdAndUpdate ns st now i u
                 = Inr (r, snd (updateEntity ns st now ident body)))"
    unfolding updateEntity_def Let_def
    by (simp split: option.splits sum.splits mongooseError.splits prod.splits) blast
  then show ?thesis
  proof (elim disjE exE)
    fix i u r
    assume a: "Entity_findByIdAndUpdate ns st now i u
                 = Inr (r, snd (updateEntity ns st now ident body))"
    from findByIdAndUpdate_activity [OF a] assms show ?thesis
      by (simp add: as_built_map)
  qed (simp add: assms)
qed

lemma as_built_never_updates:
  assumes "list_all (\<lambda>e. entityIsActive e = JUndefined) (entities st)"
  shows "snd (updateEntityRecord dm st now user p ident body) = st
         \<and> (\<forall>status r. fst (updateEntityRecord dm st now user p ident body) \<noteq> Success status r)"
proof (cases ident)
  case None
  then show ?thesis by (simp add: updateEntityRecord_def)
next
  case (Some i)
  show ?thesis
  proof (cases "find (\<lambda>r. record_id r = i \<and> entityCode r = toUpperCase p) (records st)")
    case None
    with Some show ?thesis by (simp add: updateEntityRecord_def)
  next
    case (Some record0) note rec = this
    show ?thesis
    proof (cases "find (\<lambda>e. entity_id e = entityId record0) (entities st)")
      case None
      with \<open>ident = Some i\<close> rec show ?thesis by (simp add: updateEntityRecord_def)
    next
      case (Some entity)
      from find_SomeD [OF Some] assms have "entityIsActive entity = JUndefined"
        by (auto simp: list_all_iff)
      with \<open>ident = Some i\<close> rec Some show ?thesis by (simp add: updateEntityRecord_def)
    qed
  qed
qed

text \<open>
  C4. Creating a record should succeed exactly when the definition is usable,
  \<open>derivedRecordConfig.activation.entityActive = true\<close>. The handler tests the property
  \<open>entityIsActive\<close> instead: \<open>CUSTOMER\<close>, created through \<open>createEntity\<close> with
  \<open>entityActive = true\<close>, has no such property, and the create of a record against it is
  refused as inactive, the store unchanged.
\<close>

theorem create_refused_for_usable_definition:
  "createEntity emptyStore 1000 7 customerBody = (Success 201 customer, customerStore)
   \<and> entityActive (activation (derivedRecordConfig customer)) = True
   \<and> entityIsActive customer = JUndefined
   \<and> createEntityRecord exampleModel customerStore 2000 7 ''customer'' acmeBody
       = (Fail 400 ''Entity Customer is currently inactive and cannot accept new records'',
          customerStore)"
  using createEntity_customer create_refused_example
  by (simp add: customer_def)

section \<open>Updates under versioning\<close>

lemma length_updateOne: "length (updateOne p f xs) = length xs"
  by (induction xs) auto

lemma update_keeps_count:
  "length (records (snd (updateEntityRecord dm st now user p ident body)))
     = length (records st)"
proof -
  have "snd (updateEntityRecord dm st now user p ident body) = st
        \<or> (\<exists>errs r. EntityRecord_save st now errs r
               = Inr (snd (updateEntityRecord dm st now user p ident body)))"
    unfolding updateEntityRecord_def
    by (simp split: option.splits sum.splits) blast
  then show ?thesis
    by (auto dest!: EntityRecord_save_Inr simp: length_updateOne)
qed

text \<open>
  C1. Under a definition with versioning on, an update should retire the current revision
  and insert a new one with the next version (the API documentation of the repository:
  \<open>Each update creates a new version of the record\<close>). The update of \<open>ACME001\<close> under
  \<open>CUSTOMER\<close> is refused at the activity check (the defect of C4): nothing is retired,
  nothing inserted. No update, whatever the store and the request, adds a record to the
  store. And the steps behind the check write in place: the handler assigns the patch on
  the document it found and saves that document, which leaves one record with the same
  \<open>_id\<close>, \<open>version\<close> 1, \<open>isCurrent\<close> true and \<open>expiredAt\<close> null, the data of the first
  revision gone; the \<open>pre('save')\<close> hook that names the versioning logic is an empty
  placeholder.
\<close>

theorem update_in_place:
  "versioning_enabled (versioning (derivedRecordConfig customer)) = True
   \<and> records customerWithAcme = [acme]
   \<and> updateEntityRecord exampleModel customerWithAcme 3000 7 ''customer'' (Some 2) emailBody
       = (Fail 400 ''Entity Customer is currently inactive and records cannot be updated'',
          customerWithAcme)
   \<and> length (records (snd (updateEntityRecord dm st now user p ident body)))
       = length (records st)
   \<and> assignRecordUpdate exampleModel customer 7 emailBody acme
       = Inr (acme\<lparr> data := [(''customerCode'', JStr ''ACME001''),
                               (''email'', JStr ''b@b.com'')] \<rparr>)
   \<and> EntityRecord_save customerWithAcme 3000 (updateCastErrors customer emailBody)
         (acme\<lparr> data := [(''customerCode'', JStr ''ACME001''), (''email'', JStr ''b@b.com'')] \<rparr>)
       = Inr (customerWithAcme\<lparr> records := [acmeUpdated] \<rparr>)
   \<and> record_id acmeUpdated = record_id acme
   \<and> version acmeUpdated = 1
   \<and> isCurrent acmeUpdated = True
   \<and> expiredAt acmeUpdated = None
   \<and> data acmeUpdated \<noteq> data acme"
  using update_refused_example assign_example save_example
    update_keeps_count [of dm st now user p ident body]
  by (simp add: example_defs)

section \<open>The version history\<close>

lemma set_setProperty: "set (setProperty k v ps) \<subseteq> insert (k, v) (set ps)"
  by (induction ps) auto

lemma collect_matches:
  assumes "list_all (fieldMatches d) bk"
  shows "list_all (fieldMatches d)
           (foldl (\<lambda>bk field.
                     case map_of d field of
                       Some v \<Rightarrow> if v \<noteq> JUndefined then setProperty field v bk else bk
                     | None \<Rightarrow> bk) bk fs)"
  using assms
proof (induction fs arbitrary: bk)
  case Nil
  then show ?case by simp
next
  case (Cons field fs)
  show ?case
  proof (cases "map_of d field")
    case None
    with Cons show ?thesis by simp
  next
    case (Some v)
    have "list_all (fieldMatches d) (setProperty field v bk)"
      using Cons.prems Some set_setProperty [of field v bk]
      by (auto simp: list_all_iff fieldMatches_def)
    with Cons Some show ?thesis by simp
  qed
qed

lemma businessKey_matches:
  "getBusinessKeyFields e d = Some k \<Longrightarrow> list_all (fieldMatches d) k"
  unfolding getBusinessKeyFields_def Let_def
  using collect_matches [of d "[]" "required (schemaDefinition e)"]
  by (auto split: if_splits)

lemma same_key_listed:
  assumes "getEntityRecordVersions st p (Some i) = Success status resp"
    and "find (\<lambda>r. record_id r = i \<and> entityCode r = toUpperCase p) (records st) = Some current"
    and "find (\<lambda>e. entity_id e = entityId current) (entities st) = Some entity"
    and "r \<in> set (records st)" and "entityCode r = toUpperCase p"
    and "getBusinessKeyFields entity (data r) = getBusinessKeyFields entity (data current)"
  shows "r \<in> set (versions_data resp)"
proof -
  from assms(1-3) obtain k where k: "getBusinessKeyFields entity (data current) = Some k"
    and s: "set (versions_data resp)
               = {r \<in> set (records st). entityCode r = toUpperCase p
                    \<and> list_all (fieldMatches (data r)) k}"
    unfolding getEntityRecordVersions_def Let_def
    by (auto split: option.splits if_splits)
  from k assms(6) have "list_all (fieldMatches (data r)) k"
    by (simp add: businessKey_matches)
  with s assms(4,5) show ?thesis by simp
qed





section \<open>The parent reference\<close>

lemma newRecord_dynamic: "newRecord st now (rd\<lparr> rd_dynamic := x \<rparr>) = newRecord st now rd"
  by (simp add: newRecord_def)

lemma create_ignores_plain_key:
  "\<not> reservedName dm k \<Longrightarrow>
   EntityRecord_create dm st now (rd\<lparr> rd_dynamic := Some (k, v) \<rparr>)
     = EntityRecord_create dm st now (rd\<lparr> rd_dynamic := None \<rparr>)"
  by (simp add: EntityRecord_create_def newRecord_dynamic)

lemma buildRecordData_parent:
  "buildRecordData entity user bodyData (body\<lparr> req_parent := v \<rparr>)
     = (buildRecordData entity user bodyData (body\<lparr> req_parent := JUndefined \<rparr>))
         \<lparr> rd_dynamic :=
             (if hierarchy_enabled (hierarchy (derivedRecordConfig entity)) \<and> truthy v
              then Some (parentLinkField (hierarchy (derivedRecordConfig entity)), v)
              else None) \<rparr>"
  by (simp add: buildRecordData_def Let_def)

lemma parent_dropped_create:
  assumes "plainLink dm entity"
  shows "EntityRecord_create dm st now
           (buildRecordData entity user bodyData (body\<lparr> req_parent := v \<rparr>))
     = EntityRecord_create dm st now
           (buildRecordData entity user bodyData (body\<lparr> req_parent := JUndefined \<rparr>))"
proof -
  have "rd_dynamic (buildRecordData entity user bodyData (body\<lparr> req_parent := JUndefined \<rparr>))
          = None"
    by (simp add: buildRecordData_def Let_def)
  then have same: "(buildRecordData entity user bodyData (body\<lparr> req_parent := JUndefined \<rparr>))
          \<lparr> rd_dynamic := None \<rparr>
        = buildRecordData entity user bodyData (body\<lparr> req_parent := JUndefined \<rparr>)"
    by (metis recordData.surjective recordData.update_convs(9))
  show ?thesis
    using assms
    by (subst buildRecordData_parent) (simp add: create_ignores_plain_key plainLink_def same)
qed

lemma parent_dropped:
  assumes "list_all (plainLink dm) (entities st)"
  shows "createEntityRecord dm st now user p (body\<lparr> req_parent := v \<rparr>)
     = createEntityRecord dm st now user p (body\<lparr> req_parent := JUndefined \<rparr>)"
proof (cases "find (\<lambda>e. code e = toUpperCase p) (entities st)")
  case None
  then show ?thesis by (simp add: createEntityRecord_def split: option.splits)
next
  case (Some entity)
  with assms have "plainLink dm entity"
    by (auto dest!: find_SomeD simp: list_all_iff)
  from Some show ?thesis
    by (simp add: createEntityRecord_def
        parent_dropped_create [OF \<open>plainLink dm entity\<close>, where v = v and body = body]
        split: option.splits)
qed

text \<open>
  C8. Under a definition with hierarchy on, a create that supplies a parent reference
  should store it under the name \<open>parentLinkField\<close> gives. The create of \<open>ACME001\<close> with
  the parent \<open>P1\<close> under \<open>CUSTOMER\<close> is refused at the activity check (the defect of C4),
  so no record holds the reference. And behind the check the reference is lost as well:
  the handler puts it into \<open>recordData\<close> under \<open>parentId\<close>, but \<open>entityRecordSchema\<close>
  declares no such path and the model drops the key, so the document
  \<open>EntityRecord.create\<close> stores for that \<open>recordData\<close> is the document it stores for the
  body without a parent.
\<close>

theorem parent_reference_not_stored:
  "hierarchy_enabled (hierarchy (derivedRecordConfig customer)) = True
   \<and> parentLinkField (hierarchy (derivedRecordConfig customer)) = ''parentId''
   \<and> createEntityRecord exampleModel customerStore 2000 7 ''customer''
         (acmeBody\<lparr> req_parent := JStr ''P1'' \<rparr>)
       = (Fail 400 ''Entity Customer is currently inactive and cannot accept new records'',
          customerStore)
   \<and> req_data (acmeBody\<lparr> req_parent := JStr ''P1'' \<rparr>) = Some acmeData
   \<and> rd_dynamic (buildRecordData customer 7 acmeData (acmeBody\<lparr> req_parent := JStr ''P1'' \<rparr>))
       = Some (''parentId'', JStr ''P1'')
   \<and> EntityRecord_create exampleModel customerStore 2000
         (buildRecordData customer 7 acmeData (acmeBody\<lparr> req_parent := JStr ''P1'' \<rparr>))
       = Inr (acme, customerWithAcme)
   \<and> EntityRecord_create exampleModel customerStore 2000
         (buildRecordData customer 7 acmeData acmeBody)
       = Inr (acme, customerWithAcme)"
  using model_create_parent model_create_acme
  by (simp add: example_defs record_defs)

section \<open>Current revisions per business key\<close>

text \<open>
  C2. After a create, exactly one current revision should exist for the business key of
  the new record, and never more than one. The create of \<open>ACME001\<close> under \<open>CUSTOMER\<close> is
  refused at the activity check (the defect of C4): no current revision with that key
  exists after it. And the steps behind the check do not keep the bound: the handler
  gives \<open>recordData\<close> to \<open>EntityRecord.create\<close> without a look-up of the business key, and
  the model, in which \<open>isCurrent\<close> has only its default \<open>true\<close>, inserts a second current
  record beside a stored current record of the same key.
\<close>

theorem no_current_revision_after_create:
  "versioning_enabled (versioning (derivedRecordConfig customer)) = True
   \<and> createEntityRecord exampleModel customerStore 2000 7 ''customer'' acmeBody
       = (Fail 400 ''Entity Customer is currently inactive and cannot accept new records'',
          customerStore)
   \<and> currentWithKey customer [(''customerCode'', JStr ''ACME001'')] customerStore = []
   \<and> req_data acmeBody = Some acmeData
   \<and> getBusinessKeyFields customer acmeData = Some [(''customerCode'', JStr ''ACME001'')]
   \<and> EntityRecord_create exampleModel customerWithAcme 2100
         (buildRecordData customer 7 acmeData acmeBody)
       = Inr (acmeAgain, customerWithTwoAcme)
   \<and> currentWithKey customer [(''customerCode'', JStr ''ACME001'')] customerWithAcme = [acme]
   \<and> currentWithKey customer [(''customerCode'', JStr ''ACME001'')] customerWithTwoAcme
       = [acme, acmeAgain]"
  using create_refused_example model_create_again
  by (simp add: example_defs currentWithKey_def getBusinessKeyFields_def)

section \<open>The payload and the schema of the definition\<close>

text \<open>
  C3. The data of a create or an update should be validated against the
  \<open>schemaDefinition\<close> of the definition, and a violation answered with the list of the
  violations. A payload without the required \<open>customerCode\<close>, with a number where the
  schema declares a string, gets the answer of a valid payload: under \<open>CUSTOMER\<close> both
  are refused at the activity check (the defect of C4), with a message that names no
  violation. The handlers never read \<open>schemaDefinition\<close>: whatever the schemas of the
  definitions in the store, the response is the same, and so is the store after the
  request apart from those schemas. Nor does the model validate: \<open>pre('save')\<close> of
  \<open>entityRecordSchema\<close> is a placeholder that names the schema validation, and
  \<open>EntityRecord.create\<close> stores the invalid payload. The validation is meant to exist: the
  API documentation of the repository lists \<open>Validation errors in data\<close> among the answers
  of the create, and the \<open>catch\<close> of both handlers tests for \<open>Required field\<close>.
\<close>

theorem payload_not_validated:
  "required (schemaDefinition customer) = [''customerCode'']
   \<and> req_data invalidBody = Some [(''email'', JNum 5)]
   \<and> createEntityRecord exampleModel customerStore 2000 7 ''customer'' invalidBody
       = (Fail 400 ''Entity Customer is currently inactive and cannot accept new records'',
          customerStore)
   \<and> createEntityRecord exampleModel customerStore 2000 7 ''customer'' acmeBody
       = (Fail 400 ''Entity Customer is currently inactive and cannot accept new records'',
          customerStore)
   \<and> updateEntityRecord exampleModel customerWithAcme 3000 7 ''customer'' (Some 2) invalidBody
       = (Fail 400 ''Entity Customer is currently inactive and records cannot be updated'',
          customerWithAcme)
   \<and> createEntityRecord dm (withSchemas f st) now user p body
       = map_prod id (withSchemas f) (createEntityRecord dm st now user p body)
   \<and> updateEntityRecord dm (withSchemas f st) now user p ident body
       = map_prod id (withSchemas f) (updateEntityRecord dm st now user p ident body)
   \<and> EntityRecord_create exampleModel customerStore 2000
         (buildRecordData customer 7 [(''email'', JNum 5)] invalidBody)
       = Inr (invalidRecord, customerWithInvalid)
   \<and> data invalidRecord = [(''email'', JNum 5)]"
proof -
  have 1: "createEntityRecord exampleModel customerStore 2000 7 ''customer'' invalidBody
       = (Fail 400 ''Entity Customer is currently inactive and cannot accept new records'',
          customerStore)"
    and 2: "updateEntityRecord exampleModel customerWithAcme 3000 7 ''customer'' (Some 2)
         invalidBody
       = (Fail 400 ''Entity Customer is currently inactive and records cannot be updated'',
          customerWithAcme)"
    and 3: "required (schemaDefinition customer) = [''customerCode'']"
      "req_data invalidBody = Some [(''email'', JNum 5)]"
      "data invalidRecord = [(''email'', JNum 5)]"
    by (simp_all add: example_defs record_defs)
  from 1 2 3 create_refused_example model_create_invalid
    createEntityRecord_schema [of dm f st now user p body]
    updateEntityRecord_schema [of dm f st now user p ident body]
  show ?thesis by simp
qed

section \<open>The validity dates\<close>

text \<open>
  C9. A create under a definition with time bounding that supplies a start of the
  validity not before its end should fail with the ordering error of the validation. The
  model has that validation (\<open>pre('validate')\<close>: given the \<open>recordData\<close> of such a
  request, \<open>EntityRecord.create\<close> raises \<open>Effective end date must be after effective start
  date\<close>), and every handler that writes a record keeps the ordering of the stored dates
  (the lemmas above). But the handler does not get as far: the create with the start at
  5000 and the end at 4000 under \<open>CUSTOMER\<close>, a definition with time bounding built by
  \<open>createEntity\<close>, is refused at the activity check (the defect of C4), with the answer a
  request with ordered dates gets.
\<close>

theorem ordering_error_not_reported:
  "createEntity emptyStore 1000 7 customerBody = (Success 201 customer, customerStore)
   \<and> useTimeBounding (activation (derivedRecordConfig customer)) = True
   \<and> req_effectiveFrom backwardsBody = Some (ValidDate 5000)
   \<and> req_effectiveTo backwardsBody = Some (ValidDate 4000)
   \<and> createEntityRecord exampleModel customerStore 2000 7 ''customer'' backwardsBody
       = (Fail 400 ''Entity Customer is currently inactive and cannot accept new records'',
          customerStore)
   \<and> createEntityRecord exampleModel customerStore 2000 7 ''customer'' acmeBody
       = (Fail 400 ''Entity Customer is currently inactive and cannot accept new records'',
          customerStore)
   \<and> req_data backwardsBody = Some acmeData
   \<and> EntityRecord_create exampleModel customerStore 2000
         (buildRecordData customer 7 acmeData backwardsBody)
       = Inl (ValidationError [(''effectiveTo'', ''Effective end date must be after effective start date'')])"
proof -
  have 1: "createEntityRecord exampleModel customerStore 2000 7 ''customer'' backwardsBody
       = (Fail 400 ''Entity Customer is currently inactive and cannot accept new records'',
          customerStore)"
    and 2: "useTimeBounding (activation (derivedRecordConfig customer)) = True"
      "req_effectiveFrom backwardsBody = Some (ValidDate 5000)"
      "req_effectiveTo backwardsBody = Some (ValidDate 4000)"
      "req_data backwardsBody = Some acmeData"
    by (simp_all add: example_defs record_defs)
  from 1 2 createEntity_customer create_refused_example model_create_backwards
  show ?thesis by simp
qed

end
